theory Spec2Isabelle
  imports Main "HOL-Library.Word"
begin

section \<open>Python values\<close>

text \<open>
  The accessors return dictionaries whose values are strings, numbers, booleans, lists and
  nested dictionaries; a value that stays \<open>None\<close> is \<open>JNull\<close>. A dictionary keeps its
  insertion order, so it is an association list. A float is only ever passed through, so it
  is carried as its 64 bits (\<open>0.0\<close> is the zero word).
\<close>

datatype float64 = Float64 "64 word"

datatype json =
    JNull
  | JBool bool
  | JInt int
  | JFloat float64
  | JStr string
  | JList "json list"
  | JObj "(string \<times> json) list"

type_synonym dict = "(string \<times> json) list"

text \<open>\<open>d[k] = v\<close>: an existing key keeps its place, a new key goes to the end.\<close>

fun dict_set :: "dict \<Rightarrow> string \<Rightarrow> json \<Rightarrow> dict" where
  "dict_set [] k v = [(k, v)]"
| "dict_set ((k', v') # kvs) k v =
     (if k' = k then (k, v) # kvs else (k', v') # dict_set kvs k v)"

fun keys :: "json \<Rightarrow> string list" where
  "keys (JObj kvs) = map fst kvs"
| "keys _ = []"


text \<open>
  Objects of the SDK that the code only tests for presence and turns into text are carried
  as that text: a datetime of a response by its \<open>isoformat()\<close>, an enum member or a UUID by
  its \<open>str()\<close>. Such an object is truthy whatever its text.
\<close>

datatype timestamp = Timestamp string

fun isoformat :: "timestamp \<Rightarrow> string" where
  "isoformat (Timestamp s) = s"

datatype stringable = Stringable string

fun str :: "stringable \<Rightarrow> string" where
  "str (Stringable s) = s"

text \<open>\<open>x or ''\<close> and \<open>x or []\<close> on an optional string or list: \<open>None\<close> and the empty value are falsy.\<close>

definition or_empty :: "string option \<Rightarrow> string" where
  "or_empty x = (case x of None \<Rightarrow> [] | Some s \<Rightarrow> if s = [] then [] else s)"

definition or_nil :: "'a list option \<Rightarrow> 'a list" where
  "or_nil x = (case x of None \<Rightarrow> [] | Some xs \<Rightarrow> if xs = [] then [] else xs)"

text \<open>\<open>x.isoformat() if x else ''\<close> and \<open>str(x) if x else ''\<close>.\<close>

definition isoformat_or_empty :: "timestamp option \<Rightarrow> string" where
  "isoformat_or_empty x = (case x of None \<Rightarrow> [] | Some d \<Rightarrow> isoformat d)"

definition str_or_empty :: "stringable option \<Rightarrow> string" where
  "str_or_empty x = (case x of None \<Rightarrow> [] | Some v \<Rightarrow> str v)"

datatype exn = Exception string | OverflowError string

fun str_exn :: "exn \<Rightarrow> string" where
  "str_exn (Exception m) = m"
| "str_exn (OverflowError m) = m"

text \<open>\<open>str(None)\<close> inside an f-string.\<close>

definition str_opt :: "string option \<Rightarrow> string" where
  "str_opt x = (case x of None \<Rightarrow> ''None'' | Some s \<Rightarrow> s)"

section \<open>Entities of the remote directory service\<close>

record application =
  a_id :: "string option"
  a_app_id :: "string option"
  a_display_name :: "string option"
  a_created_date_time :: "timestamp option"
  a_sign_in_audience :: "string option"
  a_publisher_domain :: "string option"
  a_tags :: "string list option"

text \<open>
  The \<open>Application()\<close> object that create and update fill in and send. It is the same SDK
  class; its fields hold whatever the caller's mapping held, and an unset field is \<open>None\<close>
  (\<open>JNull\<close>).
\<close>

record application_request =
  w_id :: json
  w_app_id :: json
  w_display_name :: json
  w_created_date_time :: json
  w_sign_in_audience :: json
  w_publisher_domain :: json
  w_tags :: json
  w_identifier_uris :: json
  w_web :: json
  w_api :: json
  w_required_resource_access :: json

record service_principal =
  spn_id :: "string option"

record app_role_assignment =
  ra_id :: "string option"
  ra_created_date_time :: "timestamp option"
  ra_app_role_id :: "stringable option"
  ra_principal_display_name :: "string option"
  ra_principal_id :: "stringable option"
  ra_principal_type :: "string option"
  ra_resource_display_name :: "string option"
  ra_resource_id :: "stringable option"

record oauth2_permission_grant =
  g_id :: "string option"
  g_client_id :: "string option"
  g_consent_type :: "string option"
  g_principal_id :: "string option"
  g_resource_id :: "string option"
  g_scope :: "string option"

record key_value =
  kv_key :: "string option"
  kv_value :: "string option"

record user_identity =
  ui_id :: "string option"
  ui_display_name :: "string option"
  ui_user_principal_name :: "string option"

record app_identity =
  ai_app_id :: "string option"
  ai_display_name :: "string option"

record audit_activity_initiator =
  ib_user :: "user_identity option"
  ib_app :: "app_identity option"

record modified_property =
  mp_display_name :: "string option"
  mp_old_value :: "string option"
  mp_new_value :: "string option"

record target_resource =
  tr_id :: "string option"
  tr_display_name :: "string option"
  tr_type :: "string option"
  tr_user_principal_name :: "string option"
  tr_modified_properties :: "modified_property list option"

record directory_audit =
  da_id :: "string option"
  da_activity_date_time :: "timestamp option"
  da_activity_display_name :: "string option"
  da_category :: "string option"
  da_operation_type :: "string option"
  da_result :: "stringable option"
  da_result_reason :: "string option"
  da_logged_by_service :: "string option"
  da_correlation_id :: "string option"
  da_additional_details :: "key_value list option"
  da_initiated_by :: "audit_activity_initiator option"
  da_target_resources :: "target_resource list option"

record sign_in_status =
  st_error_code :: "int option"
  st_failure_reason :: "string option"
  st_additional_details :: "string option"

record device_detail =
  dd_device_id :: "string option"
  dd_display_name :: "string option"
  dd_operating_system :: "string option"
  dd_browser :: "string option"
  dd_is_compliant :: "bool option"
  dd_is_managed :: "bool option"
  dd_trust_type :: "string option"

record geo_coordinates =
  geo_latitude :: "float64 option"
  geo_longitude :: "float64 option"

record sign_in_location =
  loc_city :: "string option"
  loc_state :: "string option"
  loc_country_or_region :: "string option"
  loc_geo_coordinates :: "geo_coordinates option"

record sign_in =
  si_id :: "string option"
  si_created_date_time :: "timestamp option"
  si_user_id :: "string option"
  si_user_display_name :: "string option"
  si_user_principal_name :: "string option"
  si_app_display_name :: "string option"
  si_app_id :: "string option"
  si_ip_address :: "string option"
  si_client_app_used :: "string option"
  si_correlation_id :: "string option"
  si_is_interactive :: "bool option"
  si_resource_display_name :: "string option"
  si_status :: "sign_in_status option"
  si_risk_detail :: "stringable option"
  si_risk_level_aggregated :: "stringable option"
  si_risk_level_during_sign_in :: "stringable option"
  si_risk_state :: "stringable option"
  si_risk_event_types_v2 :: "string list option"
  si_device_detail :: "device_detail option"
  si_location :: "sign_in_location option"

text \<open>A page of a collection: its entries and the link to the next page.\<close>

record 'a collection_response =
  resp_value :: "'a list option"
  odata_next_link :: "string option"

text \<open>
  \<open>if response and response.value: acc.extend(response.value)\<close> adds \<open>page_values response\<close>;
  \<open>response is not None and getattr(response, 'odata_next_link', None)\<close> is truthy exactly
  when \<open>next_link response\<close> is \<open>Some url\<close>, and \<open>url\<close> is then the link that is followed.
\<close>

definition page_values :: "'a collection_response option \<Rightarrow> 'a list" where
  "page_values response =
     (case response of None \<Rightarrow> [] | Some r \<Rightarrow> or_nil (resp_value r))"

definition next_link :: "'a collection_response option \<Rightarrow> string option" where
  "next_link response =
     (case response of
        None \<Rightarrow> None
      | Some r \<Rightarrow>
          (case odata_next_link r of
             None \<Rightarrow> None
           | Some url \<Rightarrow> if url = [] then None else Some url))"

section \<open>The transport and what an operation leaves behind\<close>

record request_configuration =
  qp_filter :: string
  qp_orderby :: "string list"
  qp_top :: int
  headers :: "(string \<times> string) list"

text \<open>
  The remote calls of the SDK client. A call raises (\<open>Inl\<close>) or returns; a collection call
  may return no response object at all. Every collection can be read on from a link
  (\<open>with_url(link).get()\<close>), whether an operation does so or not.
\<close>

record client =
  applications_get :: "exn + application collection_response option"
  applications_with_url_get :: "string \<Rightarrow> exn + application collection_response option"
  applications_by_id_get :: "string \<Rightarrow> exn + application option"
  applications_post :: "application_request \<Rightarrow> exn + application option"
  applications_by_id_patch :: "string \<Rightarrow> application_request \<Rightarrow> exn + unit"
  applications_by_id_delete :: "string \<Rightarrow> exn + unit"
  app_role_assignments_get ::
    "string option \<Rightarrow> exn + app_role_assignment collection_response option"
  app_role_assignments_with_url_get ::
    "string option \<Rightarrow> string \<Rightarrow> exn + app_role_assignment collection_response option"
  oauth2_permission_grants_get ::
    "string option \<Rightarrow> exn + oauth2_permission_grant collection_response option"
  oauth2_permission_grants_with_url_get ::
    "string option \<Rightarrow> string \<Rightarrow> exn + oauth2_permission_grant collection_response option"
  directory_audits_get ::
    "request_configuration \<Rightarrow> exn + directory_audit collection_response option"
  directory_audits_with_url_get ::
    "string \<Rightarrow> request_configuration \<Rightarrow> exn + directory_audit collection_response option"
  sign_ins_get :: "request_configuration \<Rightarrow> exn + sign_in collection_response option"
  sign_ins_with_url_get ::
    "string \<Rightarrow> request_configuration \<Rightarrow> exn + sign_in collection_response option"

text \<open>
  \<open>graph_client.get_client()\<close> hands out the SDK client or raises.
  \<open>get_service_principal_by_app_id(graph_client, app_id)\<close> lives in a module that is not part
  of the sources at hand: its outcome (a service principal, none, or an exception) is what
  the handle answers here.
\<close>

record graph_client =
  get_client :: "exn + client"
  get_service_principal_by_app_id :: "string option \<Rightarrow> exn + service_principal option"

datatype level = INFO | WARNING | ERROR

datatype call =
    ApplicationsGet
  | ApplicationsWithUrlGet string
  | ApplicationsByIdGet string
  | ApplicationsPost application_request
  | ApplicationsByIdPatch string application_request
  | ApplicationsByIdDelete string
  | ServicePrincipalByAppId "string option"
  | AppRoleAssignmentsGet "string option"
  | AppRoleAssignmentsWithUrlGet "string option" string
  | Oauth2PermissionGrantsGet "string option"
  | Oauth2PermissionGrantsWithUrlGet "string option" string
  | DirectoryAuditsGet request_configuration
  | DirectoryAuditsWithUrlGet string request_configuration
  | SignInsGet request_configuration

text \<open>An operation leaves a trace: the remote calls it issued and the lines it logged, in order.\<close>

datatype event = Call call | Log level string

type_synonym 'a outcome = "(exn + 'a) \<times> event list"

text \<open>\<open>except Exception as e: logger.error(f"...{str(e)}"); raise\<close>\<close>

definition log_error_and_raise :: "string \<Rightarrow> 'a outcome \<Rightarrow> 'a outcome" where
  "log_error_and_raise msg r =
     (case r of
        (Inl e, tr) \<Rightarrow> (Inl e, tr @ [Log ERROR (msg @ str_exn e)])
      | (Inr x, tr) \<Rightarrow> (Inr x, tr))"

section \<open>applications.py\<close>

text \<open>The dictionary built from an application object (the same literal in list, get and create).\<close>

definition format_application :: "application \<Rightarrow> dict" where
  "format_application app =
     [(''id'', JStr (or_empty (a_id app))),
      (''appId'', JStr (or_empty (a_app_id app))),
      (''displayName'', JStr (or_empty (a_display_name app))),
      (''createdDateTime'', JStr (isoformat_or_empty (a_created_date_time app))),
      (''signInAudience'', JStr (or_empty (a_sign_in_audience app))),
      (''publisherDomain'', JStr (or_empty (a_publisher_domain app))),
      (''tags'', JList (map JStr (or_nil (a_tags app))))]"

subsection \<open>list_applications\<close>

text \<open>\<open>xs[:limit]\<close>: a negative bound counts from the end.\<close>

definition slice_to :: "'a list \<Rightarrow> int \<Rightarrow> 'a list" where
  "slice_to xs limit =
     (if 0 \<le> limit then take (nat limit) xs else take (nat (int (length xs) + limit)) xs)"

text \<open>
  The paging loop of \<open>list_applications\<close>, entered with the first response and its entries.
  A server that never stops handing out links keeps it running: that is \<open>None\<close>.
\<close>

partial_function (option) applications_loop ::
  "client \<Rightarrow> int \<Rightarrow> application collection_response option \<Rightarrow> application list \<Rightarrow>
   event list \<Rightarrow> application list outcome option"
where
  "applications_loop c limit response applications tr =
     (case next_link response of
        None \<Rightarrow> Some (Inr applications, tr)
      | Some url \<Rightarrow>
          if int (length applications) < limit then
            (case applications_with_url_get c url of
               Inl e \<Rightarrow> Some (Inl e, tr @ [Call (ApplicationsWithUrlGet url)])
             | Inr response' \<Rightarrow>
                 applications_loop c limit response' (applications @ page_values response')
                   (tr @ [Call (ApplicationsWithUrlGet url)]))
          else Some (Inr applications, tr))"

definition list_applications :: "graph_client \<Rightarrow> int \<Rightarrow> dict list outcome option" where
  "list_applications gc limit =
     map_option (log_error_and_raise ''Error listing applications: '')
       (case get_client gc of
          Inl e \<Rightarrow> Some (Inl e, [])
        | Inr c \<Rightarrow>
            (case applications_get c of
               Inl e \<Rightarrow> Some (Inl e, [Call ApplicationsGet])
             | Inr response \<Rightarrow>
                 (case applications_loop c limit response (page_values response)
                         [Call ApplicationsGet] of
                    None \<Rightarrow> None
                  | Some (Inl e, tr) \<Rightarrow> Some (Inl e, tr)
                  | Some (Inr applications, tr) \<Rightarrow>
                      Some (Inr (map format_application (slice_to applications limit)), tr))))"

subsection \<open>get_application_by_id\<close>

definition format_app_role_assignment :: "app_role_assignment \<Rightarrow> dict" where
  "format_app_role_assignment assignment =
     [(''id'', JStr (or_empty (ra_id assignment))),
      (''createdDateTime'', JStr (isoformat_or_empty (ra_created_date_time assignment))),
      (''appRoleId'', JStr (str_or_empty (ra_app_role_id assignment))),
      (''principalDisplayName'', JStr (or_empty (ra_principal_display_name assignment))),
      (''principalId'', JStr (str_or_empty (ra_principal_id assignment))),
      (''principalType'', JStr (or_empty (ra_principal_type assignment))),
      (''resourceDisplayName'', JStr (or_empty (ra_resource_display_name assignment))),
      (''resourceId'', JStr (str_or_empty (ra_resource_id assignment)))]"

definition format_oauth2_permission_grant :: "oauth2_permission_grant \<Rightarrow> dict" where
  "format_oauth2_permission_grant grant =
     [(''id'', JStr (or_empty (g_id grant))),
      (''clientId'', JStr (or_empty (g_client_id grant))),
      (''consentType'', JStr (or_empty (g_consent_type grant))),
      (''principalId'', JStr (or_empty (g_principal_id grant))),
      (''resourceId'', JStr (or_empty (g_resource_id grant))),
      (''scope'', JStr (or_empty (g_scope grant)))]"

text \<open>
  \<open>while response: ...\<close> over one sub-collection of the service principal. The list is
  created before the \<open>try\<close>, so what was appended before an exception stays in it: the loop
  hands back the exception (if any), the list and the trace.
\<close>

partial_function (option) app_role_assignments_loop ::
  "client \<Rightarrow> string option \<Rightarrow> app_role_assignment collection_response option \<Rightarrow> dict list \<Rightarrow>
   event list \<Rightarrow> (exn option \<times> dict list \<times> event list) option"
where
  "app_role_assignments_loop c sp_id response app_role_assignments tr =
     (case response of
        None \<Rightarrow> Some (None, app_role_assignments, tr)
      | Some r \<Rightarrow>
          (case next_link response of
             Some url \<Rightarrow>
               (case app_role_assignments_with_url_get c sp_id url of
                  Inl e \<Rightarrow>
                    Some (Some e,
                      app_role_assignments @ map format_app_role_assignment (or_nil (resp_value r)),
                      tr @ [Call (AppRoleAssignmentsWithUrlGet sp_id url)])
                | Inr response' \<Rightarrow>
                    app_role_assignments_loop c sp_id response'
                      (app_role_assignments @ map format_app_role_assignment (or_nil (resp_value r)))
                      (tr @ [Call (AppRoleAssignmentsWithUrlGet sp_id url)]))
           | None \<Rightarrow>
               Some (None,
                 app_role_assignments @ map format_app_role_assignment (or_nil (resp_value r)),
                 tr)))"

definition fetch_app_role_assignments ::
  "client \<Rightarrow> string option \<Rightarrow> (dict list \<times> event list) option" where
  "fetch_app_role_assignments c sp_id =
     (case app_role_assignments_get c sp_id of
        Inl e \<Rightarrow>
          Some ([],
            [Call (AppRoleAssignmentsGet sp_id),
             Log WARNING (''Error fetching appRoleAssignments for service principal ''
               @ str_opt sp_id @ '': '' @ str_exn e)])
      | Inr response \<Rightarrow>
          (case app_role_assignments_loop c sp_id response [] [Call (AppRoleAssignmentsGet sp_id)] of
             None \<Rightarrow> None
           | Some (None, app_role_assignments, tr) \<Rightarrow> Some (app_role_assignments, tr)
           | Some (Some e, app_role_assignments, tr) \<Rightarrow>
               Some (app_role_assignments,
                 tr @ [Log WARNING (''Error fetching appRoleAssignments for service principal ''
                   @ str_opt sp_id @ '': '' @ str_exn e)])))"

partial_function (option) oauth2_permission_grants_loop ::
  "client \<Rightarrow> string option \<Rightarrow> oauth2_permission_grant collection_response option \<Rightarrow> dict list \<Rightarrow>
   event list \<Rightarrow> (exn option \<times> dict list \<times> event list) option"
where
  "oauth2_permission_grants_loop c sp_id response oauth2_permission_grants tr =
     (case response of
        None \<Rightarrow> Some (None, oauth2_permission_grants, tr)
      | Some r \<Rightarrow>
          (case next_link response of
             Some url \<Rightarrow>
               (case oauth2_permission_grants_with_url_get c sp_id url of
                  Inl e \<Rightarrow>
                    Some (Some e,
                      oauth2_permission_grants
                        @ map format_oauth2_permission_grant (or_nil (resp_value r)),
                      tr @ [Call (Oauth2PermissionGrantsWithUrlGet sp_id url)])
                | Inr response' \<Rightarrow>
                    oauth2_permission_grants_loop c sp_id response'
                      (oauth2_permission_grants
                         @ map format_oauth2_permission_grant (or_nil (resp_value r)))
                      (tr @ [Call (Oauth2PermissionGrantsWithUrlGet sp_id url)]))
           | None \<Rightarrow>
               Some (None,
                 oauth2_permission_grants
                   @ map format_oauth2_permission_grant (or_nil (resp_value r)),
                 tr)))"

definition fetch_oauth2_permission_grants ::
  "client \<Rightarrow> string option \<Rightarrow> (dict list \<times> event list) option" where
  "fetch_oauth2_permission_grants c sp_id =
     (case oauth2_permission_grants_get c sp_id of
        Inl e \<Rightarrow>
          Some ([],
            [Call (Oauth2PermissionGrantsGet sp_id),
             Log WARNING (''Error fetching oauth2PermissionGrants for service principal ''
               @ str_opt sp_id @ '': '' @ str_exn e)])
      | Inr response \<Rightarrow>
          (case oauth2_permission_grants_loop c sp_id response []
                  [Call (Oauth2PermissionGrantsGet sp_id)] of
             None \<Rightarrow> None
           | Some (None, oauth2_permission_grants, tr) \<Rightarrow> Some (oauth2_permission_grants, tr)
           | Some (Some e, oauth2_permission_grants, tr) \<Rightarrow>
               Some (oauth2_permission_grants,
                 tr @ [Log WARNING (''Error fetching oauth2PermissionGrants for service principal ''
                   @ str_opt sp_id @ '': '' @ str_exn e)])))"

text \<open>The body of the \<open>try\<close> of \<open>get_application_by_id\<close>, and the operation with its \<open>except\<close>.\<close>

definition get_application_by_id_try ::
  "graph_client \<Rightarrow> string \<Rightarrow> dict option outcome option" where
  "get_application_by_id_try gc app_id =
       (case get_client gc of
          Inl e \<Rightarrow> Some (Inl e, [])
        | Inr c \<Rightarrow>
            (case applications_by_id_get c app_id of
               Inl e \<Rightarrow> Some (Inl e, [Call (ApplicationsByIdGet app_id)])
             | Inr None \<Rightarrow> Some (Inr None, [Call (ApplicationsByIdGet app_id)])
             | Inr (Some app) \<Rightarrow>
                 (case get_service_principal_by_app_id gc (a_app_id app) of
                    Inl e \<Rightarrow>
                      Some (Inl e,
                        [Call (ApplicationsByIdGet app_id),
                         Call (ServicePrincipalByAppId (a_app_id app))])
                  | Inr None \<Rightarrow>
                      Some (Inr (Some
                          (dict_set
                             (dict_set (format_application app) ''appRoleAssignments'' (JList []))
                             ''oauth2PermissionGrants'' (JList []))),
                        [Call (ApplicationsByIdGet app_id),
                         Call (ServicePrincipalByAppId (a_app_id app))])
                  | Inr (Some sp) \<Rightarrow>
                      (case fetch_app_role_assignments c (spn_id sp) of
                         None \<Rightarrow> None
                       | Some (app_role_assignments, tr1) \<Rightarrow>
                           (case fetch_oauth2_permission_grants c (spn_id sp) of
                              None \<Rightarrow> None
                            | Some (oauth2_permission_grants, tr2) \<Rightarrow>
                                Some (Inr (Some
                                    (dict_set
                                       (dict_set (format_application app) ''appRoleAssignments''
                                          (JList (map JObj app_role_assignments)))
                                       ''oauth2PermissionGrants''
                                       (JList (map JObj oauth2_permission_grants)))),
                                  [Call (ApplicationsByIdGet app_id),
                                   Call (ServicePrincipalByAppId (a_app_id app))]
                                    @ tr1 @ tr2))))))"

definition get_application_by_id :: "graph_client \<Rightarrow> string \<Rightarrow> dict option outcome option" where
  "get_application_by_id gc app_id =
     map_option (log_error_and_raise (''Error getting application '' @ app_id @ '': ''))
       (get_application_by_id_try gc app_id)"

subsection \<open>create_application and update_application\<close>

definition Application :: application_request where
  "Application =
     \<lparr>w_id = JNull, w_app_id = JNull, w_display_name = JNull, w_created_date_time = JNull,
      w_sign_in_audience = JNull, w_publisher_domain = JNull, w_tags = JNull,
      w_identifier_uris = JNull, w_web = JNull, w_api = JNull,
      w_required_resource_access = JNull\<rparr>"

text \<open>The seven \<open>if key in app_data: app.field = app_data[key]\<close> of create and of update.\<close>

definition set_properties :: "(string \<rightharpoonup> json) \<Rightarrow> application_request" where
  "set_properties app_data =
     (let app = Application;
          app = (case app_data ''displayName'' of
                   None \<Rightarrow> app | Some v \<Rightarrow> app\<lparr>w_display_name := v\<rparr>);
          app = (case app_data ''signInAudience'' of
                   None \<Rightarrow> app | Some v \<Rightarrow> app\<lparr>w_sign_in_audience := v\<rparr>);
          app = (case app_data ''tags'' of
                   None \<Rightarrow> app | Some v \<Rightarrow> app\<lparr>w_tags := v\<rparr>);
          app = (case app_data ''identifierUris'' of
                   None \<Rightarrow> app | Some v \<Rightarrow> app\<lparr>w_identifier_uris := v\<rparr>);
          app = (case app_data ''web'' of
                   None \<Rightarrow> app | Some v \<Rightarrow> app\<lparr>w_web := v\<rparr>);
          app = (case app_data ''api'' of
                   None \<Rightarrow> app | Some v \<Rightarrow> app\<lparr>w_api := v\<rparr>);
          app = (case app_data ''requiredResourceAccess'' of
                   None \<Rightarrow> app | Some v \<Rightarrow> app\<lparr>w_required_resource_access := v\<rparr>)
      in app)"

definition create_application :: "graph_client \<Rightarrow> (string \<rightharpoonup> json) \<Rightarrow> dict outcome" where
  "create_application gc app_data =
     log_error_and_raise ''Error creating application: ''
       (case get_client gc of
          Inl e \<Rightarrow> (Inl e, [])
        | Inr c \<Rightarrow>
            (case applications_post c (set_properties app_data) of
               Inl e \<Rightarrow> (Inl e, [Call (ApplicationsPost (set_properties app_data))])
             | Inr (Some new_app) \<Rightarrow>
                 (Inr (format_application new_app),
                  [Call (ApplicationsPost (set_properties app_data))])
             | Inr None \<Rightarrow>
                 (Inl (Exception ''Failed to create application''),
                  [Call (ApplicationsPost (set_properties app_data))])))"

definition update_application ::
  "graph_client \<Rightarrow> string \<Rightarrow> (string \<rightharpoonup> json) \<Rightarrow> dict option outcome option" where
  "update_application gc app_id app_data =
     map_option (log_error_and_raise (''Error updating application '' @ app_id @ '': ''))
       (case get_client gc of
          Inl e \<Rightarrow> Some (Inl e, [])
        | Inr c \<Rightarrow>
            (case applications_by_id_patch c app_id (set_properties app_data) of
               Inl e \<Rightarrow>
                 Some (Inl e, [Call (ApplicationsByIdPatch app_id (set_properties app_data))])
             | Inr u \<Rightarrow>
                 (case get_application_by_id gc app_id of
                    None \<Rightarrow> None
                  | Some (r, tr) \<Rightarrow>
                      Some (r, Call (ApplicationsByIdPatch app_id (set_properties app_data)) # tr))))"

subsection \<open>delete_application\<close>

definition delete_application :: "graph_client \<Rightarrow> string \<Rightarrow> bool outcome" where
  "delete_application gc app_id =
     log_error_and_raise (''Error deleting application '' @ app_id @ '': '')
       (case get_client gc of
          Inl e \<Rightarrow> (Inl e, [])
        | Inr c \<Rightarrow>
            (case applications_by_id_delete c app_id of
               Inl e \<Rightarrow> (Inl e, [Call (ApplicationsByIdDelete app_id)])
             | Inr u \<Rightarrow> (Inr True, [Call (ApplicationsByIdDelete app_id)])))"

section \<open>The time window of the log queries\<close>

text \<open>
  \<open>datetime.now(timezone.utc)\<close> is an input of the log operations. The arithmetic and the
  formatting are those of CPython's \<open>datetime\<close>: a date is turned into its proleptic
  Gregorian ordinal (day 1 is 0001-01-01), the days are subtracted there, and the ordinal is
  turned back. Python's \<open>//\<close> and \<open>%\<close> round down, as \<open>div\<close> and \<open>mod\<close> on \<open>int\<close> do.
\<close>

record datetime =
  dt_year :: int
  dt_month :: int
  dt_day :: int
  dt_hour :: int
  dt_minute :: int
  dt_second :: int
  dt_microsecond :: int

definition is_leap :: "int \<Rightarrow> bool" where
  "is_leap y = (y mod 4 = 0 \<and> (y mod 100 \<noteq> 0 \<or> y mod 400 = 0))"

definition days_before_year :: "int \<Rightarrow> int" where
  "days_before_year y = (y - 1) * 365 + (y - 1) div 4 - (y - 1) div 100 + (y - 1) div 400"

definition DAYS_IN_MONTH :: "int list" where
  "DAYS_IN_MONTH = [-1, 31, 28, 31, 30, 31, 30, 31, 31, 30, 31, 30, 31]"

definition DAYS_BEFORE_MONTH :: "int list" where
  "DAYS_BEFORE_MONTH = [-1, 0, 31, 59, 90, 120, 151, 181, 212, 243, 273, 304, 334]"


definition days_before_month :: "int \<Rightarrow> int \<Rightarrow> int" where
  "days_before_month y m = DAYS_BEFORE_MONTH ! nat m + (if 2 < m \<and> is_leap y then 1 else 0)"

definition ymd2ord :: "int \<Rightarrow> int \<Rightarrow> int \<Rightarrow> int" where
  "ymd2ord y m d = days_before_year y + days_before_month y m + d"

definition ord2ymd :: "int \<Rightarrow> int \<times> int \<times> int" where
  "ord2ymd ordinal =
     (let n = ordinal - 1;
          n400 = n div 146097; n = n mod 146097;
          n100 = n div 36524; n = n mod 36524;
          n4 = n div 1461; n = n mod 1461;
          n1 = n div 365; n = n mod 365;
          y = n400 * 400 + 1 + n100 * 100 + n4 * 4 + n1
      in if n1 = 4 \<or> n100 = 4 then (y - 1, 12, 31)
         else
           (let leapyear = (n1 = 3 \<and> (n4 \<noteq> 24 \<or> n100 = 3));
                m = (n + 50) div 32;
                preceding = DAYS_BEFORE_MONTH ! nat m + (if 2 < m \<and> leapyear then 1 else 0)
            in if n < preceding
               then (y, m - 1,
                     n - (preceding - (DAYS_IN_MONTH ! nat (m - 1)
                                        + (if m - 1 = 2 \<and> leapyear then 1 else 0))) + 1)
               else (y, m, n - preceding + 1)))"

definition MAXORDINAL :: int where
  "MAXORDINAL = 3652059"


definition toordinal :: "datetime \<Rightarrow> int" where
  "toordinal d = ymd2ord (dt_year d) (dt_month d) (dt_day d)"

definition digit :: "nat \<Rightarrow> char" where
  "digit n = ''0123456789'' ! n"

fun dec :: "nat \<Rightarrow> string" where
  "dec n = (if n < 10 then [digit n] else dec (n div 10) @ [digit (n mod 10)])"

declare dec.simps [simp del]

text \<open>\<open>str(i)\<close> of an integer, and the zero-padded \<open>%0wd\<close> of a number that is not negative.\<close>

definition str_int :: "int \<Rightarrow> string" where
  "str_int i = (if i < 0 then CHR ''-'' # dec (nat (- i)) else dec (nat i))"

definition zero_pad :: "nat \<Rightarrow> int \<Rightarrow> string" where
  "zero_pad w i = replicate (w - length (dec (nat i))) CHR ''0'' @ dec (nat i)"

text \<open>\<open>timedelta(days=days)\<close>: the number of days, or the OverflowError of the constructor.\<close>

definition timedelta :: "int \<Rightarrow> exn + int" where
  "timedelta days =
     (if days < - 2147483648 \<or> 2147483647 < days
      then Inl (OverflowError ''Python int too large to convert to C int'')
      else if 999999999 < \<bar>days\<bar>
      then Inl (OverflowError (''days='' @ str_int days @ ''; must have magnitude <= 999999999''))
      else Inr days)"

text \<open>\<open>d - timedelta(days=n)\<close>: the time of day stays, the date moves by whole days.\<close>

definition datetime_sub :: "datetime \<Rightarrow> int \<Rightarrow> exn + datetime" where
  "datetime_sub d n =
     (let ordinal = toordinal d - n
      in if 0 < ordinal \<and> ordinal \<le> MAXORDINAL
         then (case ord2ymd ordinal of
                 (y, m, dd) \<Rightarrow> Inr (d\<lparr>dt_year := y, dt_month := m, dt_day := dd\<rparr>))
         else Inl (OverflowError ''date value out of range''))"

text \<open>
  \<open>d.strftime('%Y-%m-%dT%H:%M:%SZ')\<close>. The \<open>Z\<close> is a literal of the format. \<open>%Y\<close> is
  the year in decimal as the C library of the platform prints it: glibc does not pad it, so
  a year below 1000 has fewer than four digits.
\<close>

definition strftime :: "datetime \<Rightarrow> string" where
  "strftime d =
     dec (nat (dt_year d)) @ ''-'' @ zero_pad 2 (dt_month d) @ ''-'' @ zero_pad 2 (dt_day d)
     @ ''T'' @ zero_pad 2 (dt_hour d) @ '':'' @ zero_pad 2 (dt_minute d) @ '':''
     @ zero_pad 2 (dt_second d) @ ''Z''"

text \<open>
  The first four statements of both log operations: \<open>end_date\<close>, \<open>start_date\<close> and the two
  strings \<open>(start_date_str, end_date_str)\<close>.
\<close>

definition time_window :: "datetime \<Rightarrow> int \<Rightarrow> exn + string \<times> string" where
  "time_window now days =
     (let end_date = now
      in case timedelta days of
           Inl e \<Rightarrow> Inl e
         | Inr delta \<Rightarrow>
             (case datetime_sub end_date delta of
                Inl e \<Rightarrow> Inl e
              | Inr start_date \<Rightarrow> Inr (strftime start_date, strftime end_date)))"

section \<open>audit\_logs.py\<close>

definition format_key_value :: "key_value \<Rightarrow> dict" where
  "format_key_value kv =
     [(''key'', JStr (or_empty (kv_key kv))), (''value'', JStr (or_empty (kv_value kv)))]"

definition format_initiated_by :: "audit_activity_initiator \<Rightarrow> dict" where
  "format_initiated_by ib =
     [(''user'',
       JObj (case ib_user ib of
               Some u \<Rightarrow>
                 [(''id'', JStr (or_empty (ui_id u))),
                  (''displayName'', JStr (or_empty (ui_display_name u))),
                  (''userPrincipalName'', JStr (or_empty (ui_user_principal_name u)))]
             | None \<Rightarrow> [])),
      (''app'',
       JObj (case ib_app ib of
               Some a \<Rightarrow>
                 [(''appId'', JStr (or_empty (ai_app_id a))),
                  (''displayName'', JStr (or_empty (ai_display_name a)))]
             | None \<Rightarrow> []))]"

definition format_modified_property :: "modified_property \<Rightarrow> dict" where
  "format_modified_property mp =
     [(''displayName'', JStr (or_empty (mp_display_name mp))),
      (''oldValue'', JStr (or_empty (mp_old_value mp))),
      (''newValue'', JStr (or_empty (mp_new_value mp)))]"

definition format_target_resource :: "target_resource \<Rightarrow> dict" where
  "format_target_resource t =
     [(''id'', JStr (or_empty (tr_id t))),
      (''displayName'', JStr (or_empty (tr_display_name t))),
      (''type'', JStr (or_empty (tr_type t))),
      (''userPrincipalName'', JStr (or_empty (tr_user_principal_name t))),
      (''modifiedProperties'',
       JList (map (\<lambda>mp. JObj (format_modified_property mp))
                (or_nil (tr_modified_properties t))))]"

definition format_directory_audit :: "directory_audit \<Rightarrow> dict" where
  "format_directory_audit log =
     (let log_data =
            [(''id'', JStr (or_empty (da_id log))),
             (''activityDateTime'', JStr (isoformat_or_empty (da_activity_date_time log))),
             (''activityDisplayName'', JStr (or_empty (da_activity_display_name log))),
             (''category'', JStr (or_empty (da_category log))),
             (''operationType'', JStr (or_empty (da_operation_type log))),
             (''result'', JStr (str_or_empty (da_result log))),
             (''resultReason'', JStr (or_empty (da_result_reason log))),
             (''initiatedBy'', JObj []),
             (''targetResources'', JList []),
             (''loggedByService'', JStr (or_empty (da_logged_by_service log))),
             (''correlationId'', JStr (or_empty (da_correlation_id log))),
             (''additionalDetails'',
              JList (map (\<lambda>kv. JObj (format_key_value kv))
                       (or_nil (da_additional_details log))))];
          log_data =
            (case da_initiated_by log of
               Some ib \<Rightarrow> dict_set log_data ''initiatedBy'' (JObj (format_initiated_by ib))
             | None \<Rightarrow> log_data);
          log_data =
            (if or_nil (da_target_resources log) \<noteq> []
             then dict_set log_data ''targetResources''
                    (JList (map (\<lambda>t. JObj (format_target_resource t))
                              (or_nil (da_target_resources log))))
             else log_data)
      in log_data)"

partial_function (option) directory_audits_loop ::
  "client \<Rightarrow> request_configuration \<Rightarrow> directory_audit collection_response option \<Rightarrow>
   directory_audit list \<Rightarrow> event list \<Rightarrow> directory_audit list outcome option"
where
  "directory_audits_loop c request_configuration response logs tr =
     (case next_link response of
        None \<Rightarrow> Some (Inr logs, tr)
      | Some url \<Rightarrow>
          (case directory_audits_with_url_get c url request_configuration of
             Inl e \<Rightarrow> Some (Inl e, tr @ [Call (DirectoryAuditsWithUrlGet url request_configuration)])
           | Inr response' \<Rightarrow>
               directory_audits_loop c request_configuration response'
                 (logs @ page_values response')
                 (tr @ [Call (DirectoryAuditsWithUrlGet url request_configuration)])))"

definition audit_filter_query :: "string \<Rightarrow> string \<Rightarrow> string \<Rightarrow> string" where
  "audit_filter_query user_id start_date_str end_date_str =
     ''initiatedBy/user/id eq '' @ [CHR 0x27] @ user_id @ [CHR 0x27]
     @ '' and activityDateTime ge '' @ start_date_str
     @ '' and activityDateTime le '' @ end_date_str"

text \<open>The body of the \<open>try\<close> of \<open>get_user_audit_logs\<close>, and the operation with its \<open>except\<close>.\<close>

definition get_user_audit_logs_try ::
  "graph_client \<Rightarrow> datetime \<Rightarrow> string \<Rightarrow> int \<Rightarrow> dict list outcome option" where
  "get_user_audit_logs_try gc now user_id days =
       (case get_client gc of
          Inl e \<Rightarrow> Some (Inl e, [])
        | Inr c \<Rightarrow>
            (case time_window now days of
               Inl e \<Rightarrow> Some (Inl e, [])
             | Inr (start_date_str, end_date_str) \<Rightarrow>
                 (let filter_query = audit_filter_query user_id start_date_str end_date_str;
                      tr = [Log INFO (''Fetching directory audit logs for user ID: '' @ user_id),
                            Log INFO (''Date range: '' @ start_date_str @ '' to '' @ end_date_str),
                            Log INFO (''Filter query: '' @ filter_query)];
                      request_configuration =
                        \<lparr>qp_filter = filter_query, qp_orderby = [''activityDateTime desc''],
                         qp_top = 1000, headers = []\<rparr>;
                      request_configuration =
                        request_configuration
                          \<lparr>headers := headers request_configuration
                                        @ [(''ConsistencyLevel'', ''eventual'')]\<rparr>
                  in case directory_audits_get c request_configuration of
                       Inl e \<Rightarrow> Some (Inl e, tr @ [Call (DirectoryAuditsGet request_configuration)])
                     | Inr response \<Rightarrow>
                         (case directory_audits_loop c request_configuration response
                                 (page_values response)
                                 (tr @ [Call (DirectoryAuditsGet request_configuration)]) of
                            None \<Rightarrow> None
                          | Some (Inl e, tr') \<Rightarrow> Some (Inl e, tr')
                          | Some (Inr logs, tr') \<Rightarrow>
                              Some (Inr (map format_directory_audit logs), tr')))))"

definition get_user_audit_logs ::
  "graph_client \<Rightarrow> datetime \<Rightarrow> string \<Rightarrow> int \<Rightarrow> dict list outcome option" where
  "get_user_audit_logs gc now user_id days =
     map_option
       (log_error_and_raise (''Error fetching directory audit logs for user '' @ user_id @ '': ''))
       (get_user_audit_logs_try gc now user_id days)"

section \<open>signin\_logs.py\<close>

definition json_of_optional_str :: "string option \<Rightarrow> json" where
  "json_of_optional_str x = (case x of None \<Rightarrow> JNull | Some s \<Rightarrow> JStr s)"

definition format_status :: "sign_in_status option \<Rightarrow> dict" where
  "format_status status =
     [(''errorCode'',
       JInt (case status of
               Some st \<Rightarrow> (case st_error_code st of Some n \<Rightarrow> n | None \<Rightarrow> 0)
             | None \<Rightarrow> 0)),
      (''failureReason'',
       (case status of Some st \<Rightarrow> json_of_optional_str (st_failure_reason st) | None \<Rightarrow> JStr [])),
      (''additionalDetails'',
       (case status of
          Some st \<Rightarrow> json_of_optional_str (st_additional_details st)
        | None \<Rightarrow> JStr []))]"

definition format_device_detail :: "device_detail \<Rightarrow> dict" where
  "format_device_detail device =
     [(''deviceId'', JStr (or_empty (dd_device_id device))),
      (''displayName'', JStr (or_empty (dd_display_name device))),
      (''operatingSystem'', JStr (or_empty (dd_operating_system device))),
      (''browser'', JStr (or_empty (dd_browser device))),
      (''isCompliant'', JBool (case dd_is_compliant device of Some b \<Rightarrow> b | None \<Rightarrow> False)),
      (''isManaged'', JBool (case dd_is_managed device of Some b \<Rightarrow> b | None \<Rightarrow> False)),
      (''trustType'', JStr (or_empty (dd_trust_type device)))]"

definition format_location :: "sign_in_location \<Rightarrow> dict" where
  "format_location location =
     (let location_data =
            [(''city'', JStr (or_empty (loc_city location))),
             (''state'', JStr (or_empty (loc_state location))),
             (''countryOrRegion'', JStr (or_empty (loc_country_or_region location))),
             (''coordinates'', JObj [])]
      in case loc_geo_coordinates location of
           Some g \<Rightarrow>
             dict_set location_data ''coordinates''
               (JObj [(''latitude'',
                       JFloat (case geo_latitude g of Some f \<Rightarrow> f | None \<Rightarrow> Float64 0)),
                      (''longitude'',
                       JFloat (case geo_longitude g of Some f \<Rightarrow> f | None \<Rightarrow> Float64 0))])
         | None \<Rightarrow> location_data)"

definition format_sign_in :: "sign_in \<Rightarrow> dict" where
  "format_sign_in log =
     (let log_data =
            [(''id'', JStr (or_empty (si_id log))),
             (''createdDateTime'', JStr (isoformat_or_empty (si_created_date_time log))),
             (''userId'', JStr (or_empty (si_user_id log))),
             (''userDisplayName'', JStr (or_empty (si_user_display_name log))),
             (''userPrincipalName'', JStr (or_empty (si_user_principal_name log))),
             (''appDisplayName'', JStr (or_empty (si_app_display_name log))),
             (''appId'', JStr (or_empty (si_app_id log))),
             (''ipAddress'', JStr (or_empty (si_ip_address log))),
             (''clientAppUsed'', JStr (or_empty (si_client_app_used log))),
             (''correlationId'', JStr (or_empty (si_correlation_id log))),
             (''isInteractive'',
              JBool (case si_is_interactive log of Some b \<Rightarrow> b | None \<Rightarrow> False)),
             (''resourceDisplayName'', JStr (or_empty (si_resource_display_name log))),
             (''status'', JObj (format_status (si_status log))),
             (''riskInformation'',
              JObj [(''riskDetail'', JStr (str_or_empty (si_risk_detail log))),
                    (''riskLevelAggregated'', JStr (str_or_empty (si_risk_level_aggregated log))),
                    (''riskLevelDuringSignIn'',
                     JStr (str_or_empty (si_risk_level_during_sign_in log))),
                    (''riskState'', JStr (str_or_empty (si_risk_state log))),
                    (''riskEventTypes'',
                     JList (map JStr (or_nil (si_risk_event_types_v2 log))))])];
          log_data =
            (case si_device_detail log of
               Some device \<Rightarrow> dict_set log_data ''deviceDetail'' (JObj (format_device_detail device))
             | None \<Rightarrow> log_data);
          log_data =
            (case si_location log of
               Some location \<Rightarrow> dict_set log_data ''location'' (JObj (format_location location))
             | None \<Rightarrow> log_data)
      in log_data)"

definition signin_filter_query :: "string \<Rightarrow> string \<Rightarrow> string \<Rightarrow> string" where
  "signin_filter_query user_id start_date_str end_date_str =
     ''createdDateTime ge '' @ start_date_str @ '' and createdDateTime le '' @ end_date_str
     @ '' and userId eq '' @ [CHR 0x27] @ user_id @ [CHR 0x27]"

text \<open>\<open>needle in haystack\<close> on strings.\<close>

fun starts_with :: "string \<Rightarrow> string \<Rightarrow> bool" where
  "starts_with [] s = True"
| "starts_with (c # cs) [] = False"
| "starts_with (c # cs) (d # ds) = (c = d \<and> starts_with cs ds)"

fun contains :: "string \<Rightarrow> string \<Rightarrow> bool" where
  "contains needle [] = (needle = [])"
| "contains needle (c # cs) = (starts_with needle (c # cs) \<or> contains needle cs)"

text \<open>The \<open>except\<close> clause of \<open>get_user_sign_in_logs\<close>, with its extra line on a denied request.\<close>

definition signin_log_error_and_raise :: "string \<Rightarrow> 'a outcome \<Rightarrow> 'a outcome" where
  "signin_log_error_and_raise user_id r =
     (case r of
        (Inl e, tr) \<Rightarrow>
          (Inl e,
           tr @ [Log ERROR (''Error fetching sign-in logs for user '' @ user_id @ '': '' @ str_exn e)]
              @ (if contains ''Authorization_RequestDenied'' (str_exn e)
                 then [Log ERROR
                   ''Permission denied. Ensure the application has AuditLog.Read.All permission.'']
                 else []))
      | (Inr x, tr) \<Rightarrow> (Inr x, tr))"

definition get_user_sign_in_logs ::
  "graph_client \<Rightarrow> datetime \<Rightarrow> string \<Rightarrow> int \<Rightarrow> dict list outcome" where
  "get_user_sign_in_logs gc now user_id days =
     signin_log_error_and_raise user_id
       (case get_client gc of
          Inl e \<Rightarrow> (Inl e, [])
        | Inr c \<Rightarrow>
            (case time_window now days of
               Inl e \<Rightarrow> (Inl e, [])
             | Inr (start_date_str, end_date_str) \<Rightarrow>
                 (let filter_query = signin_filter_query user_id start_date_str end_date_str;
                      tr = [Log INFO (''Fetching sign-in logs for user ID: '' @ user_id),
                            Log INFO (''Date range: '' @ start_date_str @ '' to '' @ end_date_str),
                            Log INFO (''Filter query: '' @ filter_query)];
                      request_configuration =
                        \<lparr>qp_filter = filter_query, qp_orderby = [''createdDateTime desc''],
                         qp_top = 1000, headers = []\<rparr>;
                      request_configuration =
                        request_configuration
                          \<lparr>headers := headers request_configuration
                                        @ [(''ConsistencyLevel'', ''eventual'')]\<rparr>
                  in case sign_ins_get c request_configuration of
                       Inl e \<Rightarrow> (Inl e, tr @ [Call (SignInsGet request_configuration)])
                     | Inr sign_ins \<Rightarrow>
                         (if page_values sign_ins \<noteq> []
                          then (Inr (map format_sign_in (page_values sign_ins)),
                                tr @ [Call (SignInsGet request_configuration),
                                      Log INFO (''Found ''
                                        @ str_int (int (length (page_values sign_ins)))
                                        @ '' sign-in records'')])
                          else (Inr [],
                                tr @ [Call (SignInsGet request_configuration),
                                      Log INFO (''No sign-in logs found for user '' @ user_id
                                        @ '' in the last '' @ str_int days @ '' days.'')])))))"

section \<open>Notions used to state the properties\<close>

text \<open>
  A collection laid out in pages: \<open>p\<close> and then \<open>qs\<close>, each page but the last bearing the
  link under which the transport answers with the next one.
\<close>

fun page_chain ::
  "(string \<Rightarrow> exn + 'a collection_response option) \<Rightarrow> 'a collection_response \<Rightarrow>
   'a collection_response list \<Rightarrow> bool" where
  "page_chain follow p [] = (next_link (Some p) = None)"
| "page_chain follow p (q # qs) =
     (case next_link (Some p) of
        None \<Rightarrow> False
      | Some url \<Rightarrow> follow url = Inr (Some q) \<and> page_chain follow q qs)"

text \<open>The same, but the link of the last page raises \<open>e\<close> when it is followed.\<close>

fun raises_after ::
  "(string \<Rightarrow> exn + 'a collection_response option) \<Rightarrow> 'a collection_response \<Rightarrow>
   'a collection_response list \<Rightarrow> exn \<Rightarrow> bool" where
  "raises_after follow p [] e =
     (case next_link (Some p) of None \<Rightarrow> False | Some url \<Rightarrow> follow url = Inl e)"
| "raises_after follow p (q # qs) e =
     (case next_link (Some p) of
        None \<Rightarrow> False
      | Some url \<Rightarrow> follow url = Inr (Some q) \<and> raises_after follow q qs e)"

text \<open>A fetch that hands out the pages \<open>ps\<close> and then raises \<open>e\<close> (at once when \<open>ps\<close> is empty).\<close>

definition fetch_raises ::
  "(exn + 'a collection_response option) \<Rightarrow> (string \<Rightarrow> exn + 'a collection_response option) \<Rightarrow>
   'a collection_response list \<Rightarrow> exn \<Rightarrow> bool" where
  "fetch_raises first follow ps e =
     (case ps of
        [] \<Rightarrow> first = Inl e
      | p # qs \<Rightarrow> first = Inr (Some p) \<and> raises_after follow p qs e)"

definition entries :: "'a collection_response list \<Rightarrow> 'a list" where
  "entries ps = concat (map (\<lambda>p. or_nil (resp_value p)) ps)"

text \<open>The links that are followed when the pages \<open>ps\<close> are read one after the other.\<close>

definition followed_links :: "'a collection_response list \<Rightarrow> string list" where
  "followed_links ps =
     concat (map (\<lambda>p. case next_link (Some p) of None \<Rightarrow> [] | Some url \<Rightarrow> [url]) ps)"

fun calls_of :: "event list \<Rightarrow> call list" where
  "calls_of [] = []"
| "calls_of (Call c # es) = c # calls_of es"
| "calls_of (Log l m # es) = calls_of es"

fun logs_of :: "event list \<Rightarrow> (level \<times> string) list" where
  "logs_of [] = []"
| "logs_of (Call c # es) = logs_of es"
| "logs_of (Log l m # es) = (l, m) # logs_of es"

fun call_configuration :: "call \<Rightarrow> request_configuration option" where
  "call_configuration (DirectoryAuditsGet rc) = Some rc"
| "call_configuration (DirectoryAuditsWithUrlGet url rc) = Some rc"
| "call_configuration (SignInsGet rc) = Some rc"
| "call_configuration _ = None"

text \<open>The query descriptors as the specification words them.\<close>

definition expected_audit_request :: "string \<Rightarrow> string \<Rightarrow> string \<Rightarrow> request_configuration" where
  "expected_audit_request user_id start end =
     \<lparr>qp_filter = ''initiatedBy/user/id eq '' @ [CHR 0x27] @ user_id @ [CHR 0x27]
                   @ '' and activityDateTime ge '' @ start @ '' and activityDateTime le '' @ end,
      qp_orderby = [''activityDateTime desc''],
      qp_top = 1000,
      headers = [(''ConsistencyLevel'', ''eventual'')]\<rparr>"

definition expected_sign_in_request :: "string \<Rightarrow> string \<Rightarrow> string \<Rightarrow> request_configuration" where
  "expected_sign_in_request user_id start end =
     \<lparr>qp_filter = ''createdDateTime ge '' @ start @ '' and createdDateTime le '' @ end
                   @ '' and userId eq '' @ [CHR 0x27] @ user_id @ [CHR 0x27],
      qp_orderby = [''createdDateTime desc''],
      qp_top = 1000,
      headers = [(''ConsistencyLevel'', ''eventual'')]\<rparr>"



definition allowlist :: "string set" where
  "allowlist =
     {''displayName'', ''signInAudience'', ''tags'', ''identifierUris'', ''web'', ''api'',
      ''requiredResourceAccess''}"

definition value_or_unset :: "(string \<rightharpoonup> json) \<Rightarrow> string \<Rightarrow> json" where
  "value_or_unset app_data k = (case app_data k of None \<Rightarrow> JNull | Some v \<Rightarrow> v)"





section \<open>Concrete transports and entities\<close>

definition offline :: exn where
  "offline = Exception ''offline''"

definition offline_client :: client where
  "offline_client =
     \<lparr>applications_get = Inl offline,
      applications_with_url_get = (\<lambda>url. Inl offline),
      applications_by_id_get = (\<lambda>app_id. Inl offline),
      applications_post = (\<lambda>app. Inl offline),
      applications_by_id_patch = (\<lambda>app_id app. Inl offline),
      applications_by_id_delete = (\<lambda>app_id. Inl offline),
      app_role_assignments_get = (\<lambda>sp_id. Inl offline),
      app_role_assignments_with_url_get = (\<lambda>sp_id url. Inl offline),
      oauth2_permission_grants_get = (\<lambda>sp_id. Inl offline),
      oauth2_permission_grants_with_url_get = (\<lambda>sp_id url. Inl offline),
      directory_audits_get = (\<lambda>rc. Inl offline),
      directory_audits_with_url_get = (\<lambda>url rc. Inl offline),
      sign_ins_get = (\<lambda>rc. Inl offline),
      sign_ins_with_url_get = (\<lambda>url rc. Inl offline)\<rparr>"

definition handle :: "client \<Rightarrow> graph_client" where
  "handle c = \<lparr>get_client = Inr c, get_service_principal_by_app_id = (\<lambda>app_id. Inr None)\<rparr>"

definition no_handle :: graph_client where
  "no_handle =
     \<lparr>get_client = Inl offline, get_service_principal_by_app_id = (\<lambda>app_id. Inr None)\<rparr>"

definition app_one :: application where
  "app_one =
     \<lparr>a_id = Some ''o-1'', a_app_id = Some ''c-1'', a_display_name = Some ''One'',
      a_created_date_time = None, a_sign_in_audience = None, a_publisher_domain = None,
      a_tags = None\<rparr>"

definition app_two :: application where
  "app_two =
     \<lparr>a_id = Some ''o-2'', a_app_id = Some ''c-2'', a_display_name = Some ''Two'',
      a_created_date_time = Some (Timestamp ''2024-01-01T00:00:00+00:00''),
      a_sign_in_audience = Some ''AzureADMyOrg'', a_publisher_domain = None,
      a_tags = Some [''t'']\<rparr>"

definition deleting_client :: client where
  "deleting_client = offline_client\<lparr>applications_by_id_delete := (\<lambda>app_id. Inr ())\<rparr>"

definition empty_directory_client :: client where
  "empty_directory_client = offline_client\<lparr>applications_by_id_get := (\<lambda>app_id. Inr None)\<rparr>"

definition writing_client :: client where
  "writing_client =
     offline_client
       \<lparr>applications_post := (\<lambda>app. Inr (Some app_one)),
        applications_by_id_patch := (\<lambda>app_id app. Inr ()),
        applications_by_id_get := (\<lambda>app_id. Inr (Some app_one))\<rparr>"

definition display_name_only :: application_request where
  "display_name_only = Application\<lparr>w_display_name := JStr ''x''\<rparr>"

definition page_one :: "application collection_response" where
  "page_one = \<lparr>resp_value = Some [app_one], odata_next_link = Some ''https://graph/apps-2''\<rparr>"

definition page_two :: "application collection_response" where
  "page_two = \<lparr>resp_value = Some [app_two], odata_next_link = None\<rparr>"

definition paged_applications_client :: client where
  "paged_applications_client =
     offline_client
       \<lparr>applications_get := Inr (Some page_one),
        applications_with_url_get :=
          (\<lambda>url. if url = ''https://graph/apps-2'' then Inr (Some page_two) else Inl offline)\<rparr>"

definition both_apps_page :: "application collection_response" where
  "both_apps_page = \<lparr>resp_value = Some [app_one, app_two], odata_next_link = None\<rparr>"

definition single_page_client :: client where
  "single_page_client = offline_client\<lparr>applications_get := Inr (Some both_apps_page)\<rparr>"

definition now0 :: datetime where
  "now0 =
     \<lparr>dt_year = 2024, dt_month = 1, dt_day = 8, dt_hour = 0, dt_minute = 0, dt_second = 0,
      dt_microsecond = 0\<rparr>"

definition audit_one :: directory_audit where
  "audit_one =
     \<lparr>da_id = Some ''a-1'', da_activity_date_time = None, da_activity_display_name = None,
      da_category = None, da_operation_type = None, da_result = None, da_result_reason = None,
      da_logged_by_service = None, da_correlation_id = None, da_additional_details = None,
      da_initiated_by = None, da_target_resources = None\<rparr>"

definition audit_two :: directory_audit where
  "audit_two =
     \<lparr>da_id = Some ''a-2'',
      da_activity_date_time = Some (Timestamp ''2024-01-03T10:00:00+00:00''),
      da_activity_display_name = Some ''Update user'', da_category = Some ''UserManagement'',
      da_operation_type = None, da_result = Some (Stringable ''OperationResult.Success''),
      da_result_reason = None, da_logged_by_service = None, da_correlation_id = None,
      da_additional_details = Some [\<lparr>kv_key = Some ''k'', kv_value = None\<rparr>],
      da_initiated_by =
        Some \<lparr>ib_user = Some \<lparr>ui_id = Some ''u-1'', ui_display_name = None,
                                ui_user_principal_name = None\<rparr>,
              ib_app = None\<rparr>,
      da_target_resources =
        Some [\<lparr>tr_id = Some ''t-1'', tr_display_name = None, tr_type = None,
               tr_user_principal_name = None,
               tr_modified_properties =
                 Some [\<lparr>mp_display_name = Some ''City'', mp_old_value = None,
                        mp_new_value = Some ''Oslo''\<rparr>]\<rparr>]\<rparr>"

definition audit_page_one :: "directory_audit collection_response" where
  "audit_page_one =
     \<lparr>resp_value = Some [audit_one], odata_next_link = Some ''https://graph/audits-2''\<rparr>"

definition audit_page_two :: "directory_audit collection_response" where
  "audit_page_two = \<lparr>resp_value = Some [audit_two], odata_next_link = None\<rparr>"

text \<open>A transport that answers the log queries only when they carry the expected descriptor.\<close>

definition audit_client :: client where
  "audit_client =
     offline_client
       \<lparr>directory_audits_get :=
          (\<lambda>rc. if rc = expected_audit_request ''u-1'' ''2024-01-01T00:00:00Z''
                           ''2024-01-08T00:00:00Z''
                then Inr (Some audit_page_one) else Inl offline),
        directory_audits_with_url_get :=
          (\<lambda>url rc. if url = ''https://graph/audits-2''
                        \<and> rc = expected_audit_request ''u-1'' ''2024-01-01T00:00:00Z''
                               ''2024-01-08T00:00:00Z''
                    then Inr (Some audit_page_two) else Inl offline)\<rparr>"

definition sign_in_plain :: sign_in where
  "sign_in_plain =
     \<lparr>si_id = Some ''s-1'', si_created_date_time = None, si_user_id = Some ''u-1'',
      si_user_display_name = None, si_user_principal_name = None, si_app_display_name = None,
      si_app_id = None, si_ip_address = None, si_client_app_used = None,
      si_correlation_id = None, si_is_interactive = None, si_resource_display_name = None,
      si_status = None, si_risk_detail = None, si_risk_level_aggregated = None,
      si_risk_level_during_sign_in = None, si_risk_state = None,
      si_risk_event_types_v2 = None, si_device_detail = None, si_location = None\<rparr>"

definition sign_in_full :: sign_in where
  "sign_in_full =
     sign_in_plain
       \<lparr>si_id := Some ''s-2'',
        si_status :=
          Some \<lparr>st_error_code = Some 50126, st_failure_reason = Some ''Invalid credentials'',
                st_additional_details = Some ''none''\<rparr>,
        si_device_detail :=
          Some \<lparr>dd_device_id = None, dd_display_name = None,
                dd_operating_system = Some ''Linux'', dd_browser = None,
                dd_is_compliant = None, dd_is_managed = Some True, dd_trust_type = None\<rparr>,
        si_location :=
          Some \<lparr>loc_city = Some ''Oslo'', loc_state = None, loc_country_or_region = Some ''NO'',
                loc_geo_coordinates =
                  Some \<lparr>geo_latitude = None, geo_longitude = None\<rparr>\<rparr>\<rparr>"

definition sign_in_late :: sign_in where
  "sign_in_late = sign_in_plain\<lparr>si_id := Some ''s-3''\<rparr>"

definition sign_in_page_one :: "sign_in collection_response" where
  "sign_in_page_one =
     \<lparr>resp_value = Some [sign_in_plain, sign_in_full],
      odata_next_link = Some ''https://graph/signins-2''\<rparr>"

definition sign_in_page_two :: "sign_in collection_response" where
  "sign_in_page_two = \<lparr>resp_value = Some [sign_in_late], odata_next_link = None\<rparr>"

definition sign_in_client :: client where
  "sign_in_client =
     offline_client
       \<lparr>sign_ins_get :=
          (\<lambda>rc. if rc = expected_sign_in_request ''u-1'' ''2024-01-01T00:00:00Z''
                           ''2024-01-08T00:00:00Z''
                then Inr (Some sign_in_page_one) else Inl offline),
        sign_ins_with_url_get :=
          (\<lambda>url rc. if url = ''https://graph/signins-2''
                    then Inr (Some sign_in_page_two) else Inl offline)\<rparr>"

definition resolver_raises :: graph_client where
  "resolver_raises =
     \<lparr>get_client = Inr writing_client,
      get_service_principal_by_app_id = (\<lambda>app_id. Inl (Exception ''directory unavailable''))\<rparr>"

definition assignment_one :: app_role_assignment where
  "assignment_one =
     \<lparr>ra_id = Some ''r-1'', ra_created_date_time = None,
      ra_app_role_id = Some (Stringable ''00000000-0000-0000-0000-000000000000''),
      ra_principal_display_name = Some ''Ada'', ra_principal_id = None,
      ra_principal_type = Some ''User'', ra_resource_display_name = None,
      ra_resource_id = None\<rparr>"

definition assignments_page :: "app_role_assignment collection_response" where
  "assignments_page =
     \<lparr>resp_value = Some [assignment_one], odata_next_link = Some ''https://graph/roles-2''\<rparr>"

definition grant_one :: oauth2_permission_grant where
  "grant_one =
     \<lparr>g_id = Some ''g-1'', g_client_id = Some ''sp-1'', g_consent_type = Some ''AllPrincipals'',
      g_principal_id = None, g_resource_id = None, g_scope = Some ''User.Read''\<rparr>"

definition grants_page :: "oauth2_permission_grant collection_response" where
  "grants_page =
     \<lparr>resp_value = Some [grant_one], odata_next_link = Some ''https://graph/grants-2''\<rparr>"

definition no_grants_page :: "oauth2_permission_grant collection_response" where
  "no_grants_page = \<lparr>resp_value = None, odata_next_link = None\<rparr>"

definition no_assignments_page :: "app_role_assignment collection_response" where
  "no_assignments_page = \<lparr>resp_value = None, odata_next_link = None\<rparr>"

text \<open>The second page of the role assignments cannot be read.\<close>

definition broken_roles_client :: client where
  "broken_roles_client =
     writing_client
       \<lparr>app_role_assignments_get := (\<lambda>sp_id. Inr (Some assignments_page)),
        oauth2_permission_grants_get := (\<lambda>sp_id. Inr (Some no_grants_page))\<rparr>"

text \<open>The second page of the permission grants cannot be read.\<close>

definition broken_grants_client :: client where
  "broken_grants_client =
     writing_client
       \<lparr>app_role_assignments_get := (\<lambda>sp_id. Inr (Some no_assignments_page)),
        oauth2_permission_grants_get := (\<lambda>sp_id. Inr (Some grants_page))\<rparr>"

definition resolved :: "client \<Rightarrow> graph_client" where
  "resolved c =
     \<lparr>get_client = Inr c,
      get_service_principal_by_app_id = (\<lambda>app_id. Inr (Some \<lparr>spn_id = Some ''sp-1''\<rparr>))\<rparr>"


section \<open>Properties\<close>

subsection \<open>Traces\<close>

lemma calls_of_append: "calls_of (xs @ ys) = calls_of xs @ calls_of ys"
  by (induction xs rule: calls_of.induct) simp_all

lemma logs_of_append: "logs_of (xs @ ys) = logs_of xs @ logs_of ys"
  by (induction xs rule: logs_of.induct) simp_all

lemma calls_of_log_error_and_raise:
  "calls_of (snd (log_error_and_raise msg r)) = calls_of (snd r)"
  by (cases r) (simp add: log_error_and_raise_def calls_of_append split: sum.splits)

lemma map_option_log_error_and_raise_calls:
  assumes "map_option (log_error_and_raise msg) x = Some (r, tr)"
  shows "\<exists>r' tr'. x = Some (r', tr') \<and> calls_of tr = calls_of tr'"
proof -
  from assms obtain r' tr' where x: "x = Some (r', tr')"
    and eq: "log_error_and_raise msg (r', tr') = (r, tr)"
    by (cases x) auto
  from eq calls_of_log_error_and_raise [of msg "(r', tr')"] have "calls_of tr = calls_of tr'"
    by simp
  with x show ?thesis by blast
qed

subsection \<open>The write allowlist\<close>

lemma set_properties_fields:
  "set_properties app_data =
     \<lparr>w_id = JNull, w_app_id = JNull,
      w_display_name = value_or_unset app_data ''displayName'',
      w_created_date_time = JNull,
      w_sign_in_audience = value_or_unset app_data ''signInAudience'',
      w_publisher_domain = JNull,
      w_tags = value_or_unset app_data ''tags'',
      w_identifier_uris = value_or_unset app_data ''identifierUris'',
      w_web = value_or_unset app_data ''web'',
      w_api = value_or_unset app_data ''api'',
      w_required_resource_access = value_or_unset app_data ''requiredResourceAccess''\<rparr>"
  by (simp add: set_properties_def Application_def value_or_unset_def Let_def split: option.splits)

lemma set_properties_ignores:
  "k \<notin> allowlist \<Longrightarrow> set_properties (app_data(k \<mapsto> v)) = set_properties app_data"
  by (auto simp add: set_properties_fields value_or_unset_def allowlist_def)

lemma create_application_calls:
  "get_client gc = Inr c \<Longrightarrow>
   calls_of (snd (create_application gc app_data)) = [ApplicationsPost (set_properties app_data)]"
  by (simp add: create_application_def log_error_and_raise_def split: sum.splits option.splits)

lemma update_application_first_call:
  assumes "get_client gc = Inr c" and "update_application gc app_id app_data = Some (r, tr)"
  shows "take 1 (calls_of tr) = [ApplicationsByIdPatch app_id (set_properties app_data)]"
proof -
  from assms(2) [unfolded update_application_def]
  obtain r' tr' where
    x: "(case get_client gc of
          Inl e \<Rightarrow> Some (Inl e, [])
        | Inr c \<Rightarrow>
            (case applications_by_id_patch c app_id (set_properties app_data) of
               Inl e \<Rightarrow>
                 Some (Inl e, [Call (ApplicationsByIdPatch app_id (set_properties app_data))])
             | Inr u \<Rightarrow>
                 (case get_application_by_id gc app_id of
                    None \<Rightarrow> None
                  | Some (r, tr) \<Rightarrow>
                      Some (r, Call (ApplicationsByIdPatch app_id (set_properties app_data)) # tr))))
        = Some (r', tr')"
    and c: "calls_of tr = calls_of tr'"
    using map_option_log_error_and_raise_calls by blast
  from x assms(1) have "take 1 (calls_of tr')
      = [ApplicationsByIdPatch app_id (set_properties app_data)]"
    by (auto split: sum.splits option.splits)
  with c show ?thesis by simp
qed

lemma update_application_patch_raises:
  assumes "get_client gc = Inr c"
    and "applications_by_id_patch c app_id (set_properties app_data) = Inl e"
  shows "update_application gc app_id app_data =
     Some (Inl e,
           [Call (ApplicationsByIdPatch app_id (set_properties app_data)),
            Log ERROR (''Error updating application '' @ app_id @ '': '' @ str_exn e)])"
  using assms by (simp add: update_application_def log_error_and_raise_def)

lemma update_application_returns:
  assumes "get_client gc = Inr c"
    and "applications_by_id_patch c app_id (set_properties app_data) = Inr u"
    and "get_application_by_id gc app_id = Some (Inr x, tr)"
  shows "update_application gc app_id app_data =
     Some (Inr x, Call (ApplicationsByIdPatch app_id (set_properties app_data)) # tr)"
  using assms by (simp add: update_application_def log_error_and_raise_def)

lemma update_application_get_raises:
  assumes "get_client gc = Inr c"
    and "applications_by_id_patch c app_id (set_properties app_data) = Inr u"
    and "get_application_by_id gc app_id = Some (Inl e, tr)"
  shows "update_application gc app_id app_data =
     Some (Inl e,
           Call (ApplicationsByIdPatch app_id (set_properties app_data)) # tr
           @ [Log ERROR (''Error updating application '' @ app_id @ '': '' @ str_exn e)])"
  using assms by (simp add: update_application_def log_error_and_raise_def)

text \<open>
  C6. For every mapping given to \<open>create_application\<close> or \<open>update_application\<close>, the object
  that is sent takes \<open>displayName\<close>, \<open>signInAudience\<close>, \<open>tags\<close>, \<open>identifierUris\<close>, \<open>web\<close>,
  \<open>api\<close> and \<open>requiredResourceAccess\<close> from the mapping and leaves every other field unset;
  a key outside these seven changes nothing in it. That object is the one posted by create
  (its only remote call) and the one patched by update: update issues the patch with it
  first, and returns what the read-back of the application returns, or raises what the
  patch or the read-back raises.
\<close>

theorem write_allowlist:
  "set_properties app_data =
     \<lparr>w_id = JNull, w_app_id = JNull,
      w_display_name = value_or_unset app_data ''displayName'',
      w_created_date_time = JNull,
      w_sign_in_audience = value_or_unset app_data ''signInAudience'',
      w_publisher_domain = JNull,
      w_tags = value_or_unset app_data ''tags'',
      w_identifier_uris = value_or_unset app_data ''identifierUris'',
      w_web = value_or_unset app_data ''web'',
      w_api = value_or_unset app_data ''api'',
      w_required_resource_access = value_or_unset app_data ''requiredResourceAccess''\<rparr>
   \<and> (k \<notin> allowlist \<longrightarrow> set_properties (app_data(k \<mapsto> v)) = set_properties app_data)
   \<and> (get_client gc = Inr c \<longrightarrow>
        calls_of (snd (create_application gc app_data))
          = [ApplicationsPost (set_properties app_data)])
   \<and> (get_client gc = Inr c \<and> update_application gc app_id app_data = Some (r, tr) \<longrightarrow>
        take 1 (calls_of tr) = [ApplicationsByIdPatch app_id (set_properties app_data)])
   \<and> (get_client gc = Inr c
      \<and> applications_by_id_patch c app_id (set_properties app_data) = Inl e \<longrightarrow>
        update_application gc app_id app_data =
          Some (Inl e,
                [Call (ApplicationsByIdPatch app_id (set_properties app_data)),
                 Log ERROR (''Error updating application '' @ app_id @ '': '' @ str_exn e)]))
   \<and> (get_client gc = Inr c
      \<and> applications_by_id_patch c app_id (set_properties app_data) = Inr u
      \<and> get_application_by_id gc app_id = Some (Inr x, tr') \<longrightarrow>
        update_application gc app_id app_data =
          Some (Inr x, Call (ApplicationsByIdPatch app_id (set_properties app_data)) # tr'))
   \<and> (get_client gc = Inr c
      \<and> applications_by_id_patch c app_id (set_properties app_data) = Inr u
      \<and> get_application_by_id gc app_id = Some (Inl e, tr') \<longrightarrow>
        update_application gc app_id app_data =
          Some (Inl e,
                Call (ApplicationsByIdPatch app_id (set_properties app_data)) # tr'
                @ [Log ERROR (''Error updating application '' @ app_id @ '': '' @ str_exn e)]))"
proof (intro conjI)
  show "set_properties app_data =
     \<lparr>w_id = JNull, w_app_id = JNull,
      w_display_name = value_or_unset app_data ''displayName'',
      w_created_date_time = JNull,
      w_sign_in_audience = value_or_unset app_data ''signInAudience'',
      w_publisher_domain = JNull,
      w_tags = value_or_unset app_data ''tags'',
      w_identifier_uris = value_or_unset app_data ''identifierUris'',
      w_web = value_or_unset app_data ''web'',
      w_api = value_or_unset app_data ''api'',
      w_required_resource_access = value_or_unset app_data ''requiredResourceAccess''\<rparr>"
    by (rule set_properties_fields)
  show "k \<notin> allowlist \<longrightarrow> set_properties (app_data(k \<mapsto> v)) = set_properties app_data"
    using set_properties_ignores by blast
  show "get_client gc = Inr c \<longrightarrow>
        calls_of (snd (create_application gc app_data))
          = [ApplicationsPost (set_properties app_data)]"
    using create_application_calls by blast
  show "get_client gc = Inr c \<and> update_application gc app_id app_data = Some (r, tr) \<longrightarrow>
        take 1 (calls_of tr) = [ApplicationsByIdPatch app_id (set_properties app_data)]"
    using update_application_first_call by blast
  show "get_client gc = Inr c
      \<and> applications_by_id_patch c app_id (set_properties app_data) = Inl e \<longrightarrow>
        update_application gc app_id app_data =
          Some (Inl e,
                [Call (ApplicationsByIdPatch app_id (set_properties app_data)),
                 Log ERROR (''Error updating application '' @ app_id @ '': '' @ str_exn e)])"
    using update_application_patch_raises by blast
  show "get_client gc = Inr c
      \<and> applications_by_id_patch c app_id (set_properties app_data) = Inr u
      \<and> get_application_by_id gc app_id = Some (Inr x, tr') \<longrightarrow>
        update_application gc app_id app_data =
          Some (Inr x, Call (ApplicationsByIdPatch app_id (set_properties app_data)) # tr')"
    using update_application_returns by blast
  show "get_client gc = Inr c
      \<and> applications_by_id_patch c app_id (set_properties app_data) = Inr u
      \<and> get_application_by_id gc app_id = Some (Inl e, tr') \<longrightarrow>
        update_application gc app_id app_data =
          Some (Inl e,
                Call (ApplicationsByIdPatch app_id (set_properties app_data)) # tr'
                @ [Log ERROR (''Error updating application '' @ app_id @ '': '' @ str_exn e)])"
    using update_application_get_raises by blast
qed

lemma writing_get:
  "get_application_by_id (handle writing_client) ''o-1'' =
   Some (Inr (Some (format_application app_one
                     @ [(''appRoleAssignments'', JList []), (''oauth2PermissionGrants'', JList [])])),
         [Call (ApplicationsByIdGet ''o-1''),
          Call (ServicePrincipalByAppId (Some ''c-1''))])"
  by (simp add: get_application_by_id_def get_application_by_id_try_def
      handle_def writing_client_def offline_client_def log_error_and_raise_def
      format_application_def app_one_def)

text \<open>
  The mapping \<open>{"displayName": "x", "notAllowed": "y"}\<close> is sent as an object that carries
  the display name only, by create and by update; an update whose patch raises.
\<close>

theorem write_allowlist_witness:
  "''notAllowed'' \<notin> allowlist
   \<and> set_properties [''displayName'' \<mapsto> JStr ''x'', ''notAllowed'' \<mapsto> JStr ''y''] = display_name_only
   \<and> calls_of (snd (create_application (handle writing_client)
          [''displayName'' \<mapsto> JStr ''x'', ''notAllowed'' \<mapsto> JStr ''y'']))
       = [ApplicationsPost display_name_only]
   \<and> update_application (handle writing_client) ''o-1''
         [''displayName'' \<mapsto> JStr ''x'', ''notAllowed'' \<mapsto> JStr ''y'']
       = Some (Inr (Some (format_application app_one
                     @ [(''appRoleAssignments'', JList []), (''oauth2PermissionGrants'', JList [])])),
               [Call (ApplicationsByIdPatch ''o-1'' display_name_only),
                Call (ApplicationsByIdGet ''o-1''),
                Call (ServicePrincipalByAppId (Some ''c-1''))])
   \<and> update_application (handle offline_client) ''o-1''
         [''displayName'' \<mapsto> JStr ''x'', ''notAllowed'' \<mapsto> JStr ''y'']
       = Some (Inl offline,
               [Call (ApplicationsByIdPatch ''o-1'' display_name_only),
                Log ERROR ''Error updating application o-1: offline''])"
proof -
  let ?m = "[''displayName'' \<mapsto> JStr ''x'', ''notAllowed'' \<mapsto> JStr ''y'']"
  have notin: "''notAllowed'' \<notin> allowlist"
    by (simp add: allowlist_def)
  have h: "get_client (handle writing_client) = Inr writing_client"
    by (simp add: handle_def)
  have h': "get_client (handle offline_client) = Inr offline_client"
    by (simp add: handle_def)
  have sp: "set_properties [''displayName'' \<mapsto> JStr ''x''] = display_name_only"
    by (simp add: set_properties_fields value_or_unset_def display_name_only_def Application_def)
  note w1 = write_allowlist [of "[''displayName'' \<mapsto> JStr ''x'']" "''notAllowed''" "JStr ''y''"]
  from w1 notin sp have a: "set_properties ?m = display_name_only"
    by simp
  have p1: "applications_by_id_patch writing_client ''o-1'' (set_properties ?m) = Inr ()"
    by (simp add: writing_client_def)
  have p2: "applications_by_id_patch offline_client ''o-1'' (set_properties ?m) = Inl offline"
    by (simp add: offline_client_def)
  note w2 = write_allowlist [of ?m "''notAllowed''" "JStr ''y''" "handle writing_client"
      writing_client "''o-1''" _ _ _ "()"
      "Some (format_application app_one
               @ [(''appRoleAssignments'', JList []), (''oauth2PermissionGrants'', JList [])])"
      "[Call (ApplicationsByIdGet ''o-1''), Call (ServicePrincipalByAppId (Some ''c-1''))]"]
  note w3 = write_allowlist [of ?m "''notAllowed''" "JStr ''y''" "handle offline_client"
      offline_client "''o-1''" _ _ offline]
  from w2 h a
  have b: "calls_of (snd (create_application (handle writing_client) ?m))
       = [ApplicationsPost display_name_only]"
    by simp
  from w2 h p1 writing_get a
  have c: "update_application (handle writing_client) ''o-1'' ?m
       = Some (Inr (Some (format_application app_one
                     @ [(''appRoleAssignments'', JList []), (''oauth2PermissionGrants'', JList [])])),
               [Call (ApplicationsByIdPatch ''o-1'' display_name_only),
                Call (ApplicationsByIdGet ''o-1''),
                Call (ServicePrincipalByAppId (Some ''c-1''))])"
    by simp
  from w3 h' p2 a
  have d: "update_application (handle offline_client) ''o-1'' ?m
       = Some (Inl offline,
               [Call (ApplicationsByIdPatch ''o-1'' display_name_only),
                Log ERROR ''Error updating application o-1: offline''])"
    by (simp add: offline_def)
  from notin a b c d show ?thesis by blast
qed

subsection \<open>An application that is not there\<close>

text \<open>
  C9. When the transport answers the get-by-id with no object, \<open>get_application_by_id\<close>
  returns \<open>None\<close>: it raises nothing, logs nothing and issues no further call.
\<close>

theorem get_application_by_id_absent:
  "get_client gc = Inr c \<Longrightarrow> applications_by_id_get c app_id = Inr None \<Longrightarrow>
   get_application_by_id gc app_id = Some (Inr None, [Call (ApplicationsByIdGet app_id)])"
  by (simp add: get_application_by_id_def get_application_by_id_try_def log_error_and_raise_def)

text \<open>A directory without the object \<open>o-9\<close>.\<close>

theorem get_application_by_id_absent_witness:
  "get_client (handle empty_directory_client) = Inr empty_directory_client
   \<and> applications_by_id_get empty_directory_client ''o-9'' = Inr None
   \<and> get_application_by_id (handle empty_directory_client) ''o-9''
       = Some (Inr None, [Call (ApplicationsByIdGet ''o-9'')])"
proof -
  have h1: "get_client (handle empty_directory_client) = Inr empty_directory_client"
    by (simp add: handle_def)
  have h2: "applications_by_id_get empty_directory_client ''o-9'' = Inr None"
    by (simp add: empty_directory_client_def)
  from get_application_by_id_absent [OF h1 h2] h1 h2 show ?thesis by simp
qed

subsection \<open>delete\_application\<close>

text \<open>
  C10. \<open>delete_application\<close> never returns \<open>False\<close>. It returns \<open>True\<close> whenever the remote
  delete call returns, whatever the directory held; when the handle or the delete call
  raises, the same exception is raised again after one line logged at error level.
\<close>

theorem delete_application_true_or_raises:
  "fst (delete_application gc app_id) \<noteq> Inr False
   \<and> (get_client gc = Inr c \<and> applications_by_id_delete c app_id = Inr u \<longrightarrow>
        delete_application gc app_id = (Inr True, [Call (ApplicationsByIdDelete app_id)]))
   \<and> (get_client gc = Inr c \<and> applications_by_id_delete c app_id = Inl e \<longrightarrow>
        delete_application gc app_id =
          (Inl e, [Call (ApplicationsByIdDelete app_id),
                   Log ERROR (''Error deleting application '' @ app_id @ '': '' @ str_exn e)]))
   \<and> (get_client gc = Inl e \<longrightarrow>
        delete_application gc app_id =
          (Inl e, [Log ERROR (''Error deleting application '' @ app_id @ '': '' @ str_exn e)]))"
  by (simp add: delete_application_def log_error_and_raise_def split: sum.splits)

text \<open>A delete that returns, a delete that raises, and a handle that raises.\<close>

theorem delete_application_true_or_raises_witness:
  "delete_application (handle deleting_client) ''o-1''
     = (Inr True, [Call (ApplicationsByIdDelete ''o-1'')])
   \<and> delete_application (handle offline_client) ''o-1''
     = (Inl offline, [Call (ApplicationsByIdDelete ''o-1''),
                      Log ERROR ''Error deleting application o-1: offline''])
   \<and> delete_application no_handle ''o-1''
     = (Inl offline, [Log ERROR ''Error deleting application o-1: offline''])"
proof -
  have a: "get_client (handle deleting_client) = Inr deleting_client
           \<and> applications_by_id_delete deleting_client ''o-1'' = Inr ()"
    by (simp add: handle_def deleting_client_def)
  have b: "get_client (handle offline_client) = Inr offline_client
           \<and> applications_by_id_delete offline_client ''o-1'' = Inl offline"
    by (simp add: handle_def offline_client_def)
  have c: "get_client no_handle = Inl offline"
    by (simp add: no_handle_def)
  have m: "str_exn offline = ''offline''"
    by (simp add: offline_def)
  from delete_application_true_or_raises [of "handle deleting_client" "''o-1''" deleting_client "()"] a
  have 1: "delete_application (handle deleting_client) ''o-1''
     = (Inr True, [Call (ApplicationsByIdDelete ''o-1'')])"
    by blast
  from delete_application_true_or_raises [of "handle offline_client" "''o-1''" offline_client _ offline] b m
  have 2: "delete_application (handle offline_client) ''o-1''
     = (Inl offline, [Call (ApplicationsByIdDelete ''o-1''),
                      Log ERROR ''Error deleting application o-1: offline''])"
    by simp
  from delete_application_true_or_raises [of no_handle "''o-1''" _ _ offline] c m
  have 3: "delete_application no_handle ''o-1''
     = (Inl offline, [Log ERROR ''Error deleting application o-1: offline''])"
    by simp
  from 1 2 3 show ?thesis by blast
qed

subsection \<open>Paging in list\_applications\<close>

lemma entries_Cons: "entries (p # ps) = page_values (Some p) @ entries ps"
  by (simp add: entries_def page_values_def)

lemma entries_Nil: "entries [] = []"
  by (simp add: entries_def)

lemma fst_log_error_and_raise: "fst (log_error_and_raise msg r) = fst r"
  by (cases r) (simp add: log_error_and_raise_def split: sum.splits)

lemma log_error_and_raise_Inr: "log_error_and_raise msg (Inr x, tr) = (Inr x, tr)"
  by (simp add: log_error_and_raise_def)

lemma applications_loop_chain:
  "0 \<le> limit \<Longrightarrow> page_chain (applications_with_url_get c) p qs \<Longrightarrow>
   \<exists>acc' tr'. applications_loop c limit (Some p) acc tr = Some (Inr acc', tr')
     \<and> take (nat limit) acc' = take (nat limit) (acc @ entries qs)"
proof (induction qs arbitrary: p acc tr)
  case Nil
  then show ?case
    by (subst applications_loop.simps) (simp add: entries_def)
next
  case (Cons q qs)
  from Cons.prems(2) obtain url where
    url: "next_link (Some p) = Some url" "applications_with_url_get c url = Inr (Some q)"
    and chain: "page_chain (applications_with_url_get c) q qs"
    by (auto split: option.splits)
  show ?case
  proof (cases "int (length acc) < limit")
    case True
    from Cons.IH [OF Cons.prems(1) chain, of "acc @ page_values (Some q)"
        "tr @ [Call (ApplicationsWithUrlGet url)]"]
    show ?thesis
      using True url by (subst applications_loop.simps) (simp add: entries_Cons)
  next
    case False
    then show ?thesis
      using url Cons.prems(1) by (subst applications_loop.simps) simp
  qed
qed

lemma list_applications_chain:
  assumes "get_client gc = Inr c" and "applications_get c = Inr (Some p)"
    and "page_chain (applications_with_url_get c) p qs" and "0 \<le> limit"
  shows "\<exists>tr. list_applications gc limit
           = Some (Inr (map format_application (take (nat limit) (entries (p # qs)))), tr)"
proof -
  from applications_loop_chain [OF assms(4) assms(3), of "page_values (Some p)" "[Call ApplicationsGet]"]
  obtain acc' tr' where
    loop: "applications_loop c limit (Some p) (page_values (Some p)) [Call ApplicationsGet]
             = Some (Inr acc', tr')"
    and tk: "take (nat limit) acc' = take (nat limit) (entries (p # qs))"
    by (auto simp add: entries_Cons)
  from assms(4) tk have "slice_to acc' limit = take (nat limit) (entries (p # qs))"
    by (simp add: slice_to_def)
  with loop assms(1,2) show ?thesis
    by (simp add: list_applications_def log_error_and_raise_Inr)
qed

lemma single_page_minus_one:
  "list_applications (handle single_page_client) (- 1)
     = Some (Inr [format_application app_one], [Call ApplicationsGet])"
  by (simp add: list_applications_def handle_def single_page_client_def offline_client_def
      both_apps_page_def applications_loop.simps next_link_def page_values_def or_nil_def
      slice_to_def log_error_and_raise_def)

lemma paged_chain:
  "page_chain (applications_with_url_get paged_applications_client) page_one [page_two]"
  by (simp add: paged_applications_client_def offline_client_def page_one_def page_two_def
      next_link_def)

lemma paged_entries: "entries [page_one, page_two] = [app_one, app_two]"
  by (simp add: entries_def page_one_def page_two_def or_nil_def)


text \<open>
  C5, as stated, fails for a negative limit: the limit \<open>-1\<close> is smaller than the two entries
  there are, and \<open>applications[:-1]\<close> returns one record, the list without its last entry.
\<close>

theorem list_applications_negative_limit:
  "entries [both_apps_page] = [app_one, app_two]
   \<and> list_applications (handle single_page_client) (- 1)
       = Some (Inr [format_application app_one], [Call ApplicationsGet])"
  by (simp add: single_page_minus_one entries_def both_apps_page_def or_nil_def)


text \<open>
  C5, amended. Given pages that each bear a link except the last: when the total number of
  entries is at most the limit, \<open>list_applications\<close> returns the records of all pages in page
  order; when the limit is not negative and smaller than the total, it returns exactly
  \<open>limit\<close> records, the first \<open>limit\<close> entries of that concatenation (whole pages are
  fetched, and the accumulated list is cut afterwards).
\<close>

theorem list_applications_pages:
  assumes "get_client gc = Inr c" and "applications_get c = Inr (Some p)"
    and "page_chain (applications_with_url_get c) p qs"
  shows "(int (length (entries (p # qs))) \<le> limit \<longrightarrow>
            (\<exists>tr. list_applications gc limit
               = Some (Inr (map format_application (entries (p # qs))), tr)))
       \<and> (0 \<le> limit \<and> limit < int (length (entries (p # qs))) \<longrightarrow>
            (\<exists>tr. list_applications gc limit
               = Some (Inr (map format_application (take (nat limit) (entries (p # qs)))), tr))
            \<and> int (length (map format_application (take (nat limit) (entries (p # qs))))) = limit)"
proof (intro conjI impI)
  assume le: "int (length (entries (p # qs))) \<le> limit"
  then have "0 \<le> limit" by linarith
  from list_applications_chain [OF assms this] le
  show "\<exists>tr. list_applications gc limit
               = Some (Inr (map format_application (entries (p # qs))), tr)"
    by simp
next
  assume "0 \<le> limit \<and> limit < int (length (entries (p # qs)))"
  then show "\<exists>tr. list_applications gc limit
               = Some (Inr (map format_application (take (nat limit) (entries (p # qs)))), tr)"
    using list_applications_chain [OF assms] by blast
next
  assume "0 \<le> limit \<and> limit < int (length (entries (p # qs)))"
  then show "int (length (map format_application (take (nat limit) (entries (p # qs))))) = limit"
    by (auto simp add: min_def)
qed


text \<open>Two pages of one application each, read with limit 2 and with limit 1.\<close>

theorem list_applications_pages_witness:
  "get_client (handle paged_applications_client) = Inr paged_applications_client
   \<and> applications_get paged_applications_client = Inr (Some page_one)
   \<and> page_chain (applications_with_url_get paged_applications_client) page_one [page_two]
   \<and> (\<exists>tr. list_applications (handle paged_applications_client) 2
              = Some (Inr [format_application app_one, format_application app_two], tr))
   \<and> (\<exists>tr. list_applications (handle paged_applications_client) 1
              = Some (Inr [format_application app_one], tr))"
proof -
  have h1: "get_client (handle paged_applications_client) = Inr paged_applications_client"
    by (simp add: handle_def)
  have h2: "applications_get paged_applications_client = Inr (Some page_one)"
    by (simp add: paged_applications_client_def)
  note t2 = list_applications_pages [OF h1 h2 paged_chain, of 2]
  note t1 = list_applications_pages [OF h1 h2 paged_chain, of 1]
  from t2 have a: "\<exists>tr. list_applications (handle paged_applications_client) 2
              = Some (Inr [format_application app_one, format_application app_two], tr)"
    by (simp add: paged_entries)
  from t1 have b: "\<exists>tr. list_applications (handle paged_applications_client) 1
              = Some (Inr [format_application app_one], tr)"
    by (simp add: paged_entries)
  from h1 h2 paged_chain a b show ?thesis by blast
qed


subsection \<open>The window of the fixed clock\<close>

lemma toordinal_now0: "toordinal now0 = 738893"
  by (simp add: toordinal_def now0_def ymd2ord_def days_before_year_def days_before_month_def
      DAYS_BEFORE_MONTH_def is_leap_def)

lemma ord2ymd_start0: "ord2ymd 738886 = (2024, 1, 1)"
  by (simp add: ord2ymd_def Let_def DAYS_BEFORE_MONTH_def DAYS_IN_MONTH_def)

lemma strftime_now0: "strftime now0 = ''2024-01-08T00:00:00Z''"
  by (simp add: strftime_def now0_def zero_pad_def dec.simps digit_def)

lemma time_window_now0: "time_window now0 7 = Inr (''2024-01-01T00:00:00Z'', ''2024-01-08T00:00:00Z'')"
  by (simp add: time_window_def timedelta_def datetime_sub_def toordinal_now0 ord2ymd_start0 MAXORDINAL_def strftime_now0)
    (simp add: strftime_def now0_def zero_pad_def dec.simps digit_def)



subsection \<open>Paging and query descriptors of the log operations\<close>

lemma directory_audits_loop_chain:
  "page_chain (\<lambda>url. directory_audits_with_url_get c url rc) p qs \<Longrightarrow>
   \<exists>tr'. directory_audits_loop c rc (Some p) acc tr = Some (Inr (acc @ entries qs), tr')"
proof (induction qs arbitrary: p acc tr)
  case Nil
  then show ?case
    by (subst directory_audits_loop.simps) (simp add: entries_def)
next
  case (Cons q qs)
  from Cons.prems obtain url where
    url: "next_link (Some p) = Some url" "directory_audits_with_url_get c url rc = Inr (Some q)"
    and chain: "page_chain (\<lambda>url. directory_audits_with_url_get c url rc) q qs"
    by (auto split: option.splits)
  from Cons.IH [OF chain, of "acc @ page_values (Some q)"
        "tr @ [Call (DirectoryAuditsWithUrlGet url rc)]"]
  show ?case
    using url by (subst directory_audits_loop.simps) (simp add: entries_Cons)
qed

lemma directory_audits_loop_calls:
  "directory_audits_loop c rc response acc tr = Some y \<Longrightarrow>
   \<exists>urls. snd y = tr @ map (\<lambda>url. Call (DirectoryAuditsWithUrlGet url rc)) urls"
proof (induction rule: directory_audits_loop.raw_induct [rotated 1, consumes 1])
  case (1 loop c rc response acc tr y)
  show ?case
  proof (cases "next_link response")
    case None
    with 1(2) show ?thesis by auto
  next
    case (Some url)
    show ?thesis
    proof (cases "directory_audits_with_url_get c url rc")
      case (Inl e)
      with Some 1(2) have "snd y = tr @ map (\<lambda>url. Call (DirectoryAuditsWithUrlGet url rc)) [url]"
        by auto
      then show ?thesis by blast
    next
      case (Inr response')
      with Some 1(2) have "loop c rc response' (acc @ page_values response')
          (tr @ [Call (DirectoryAuditsWithUrlGet url rc)]) = Some y"
        by simp
      from 1(1) [OF this] obtain urls where
        "snd y = (tr @ [Call (DirectoryAuditsWithUrlGet url rc)])
                   @ map (\<lambda>url. Call (DirectoryAuditsWithUrlGet url rc)) urls"
        by blast
      then have "snd y = tr @ map (\<lambda>url. Call (DirectoryAuditsWithUrlGet url rc)) (url # urls)"
        by simp
      then show ?thesis by blast
    qed
  qed
qed

lemma log_error_and_raise_result:
  assumes "map_option (log_error_and_raise msg) x = Some (r, tr)"
  shows "\<exists>tr'. x = Some (r, tr') \<and> calls_of tr = calls_of tr'"
proof -
  from assms obtain r' tr' where x: "x = Some (r', tr')"
    and eq: "log_error_and_raise msg (r', tr') = (r, tr)"
    by (cases x) auto
  from eq calls_of_log_error_and_raise [of msg "(r', tr')"] have "calls_of tr = calls_of tr'"
    by simp
  moreover from eq fst_log_error_and_raise [of msg "(r', tr')"] have "r' = r"
    by simp
  ultimately show ?thesis using x by blast
qed

lemma get_user_audit_logs_try_chain:
  assumes "get_client gc = Inr c" and "time_window now days = Inr (start, end)"
    and "directory_audits_get c (expected_audit_request user_id start end) = Inr (Some p)"
    and "page_chain (\<lambda>url. directory_audits_with_url_get c url
           (expected_audit_request user_id start end)) p qs"
  shows "\<exists>tr. get_user_audit_logs_try gc now user_id days
           = Some (Inr (map format_directory_audit (entries (p # qs))), tr)"
proof -
  from directory_audits_loop_chain [OF assms(4)]
  obtain tr' where
    "directory_audits_loop c (expected_audit_request user_id start end) (Some p)
       (page_values (Some p))
       ([Log INFO (''Fetching directory audit logs for user ID: '' @ user_id),
         Log INFO (''Date range: '' @ start @ '' to '' @ end),
         Log INFO (''Filter query: '' @ audit_filter_query user_id start end)]
        @ [Call (DirectoryAuditsGet (expected_audit_request user_id start end))])
     = Some (Inr (page_values (Some p) @ entries qs), tr')"
    by blast
  with assms(1,2,3) show ?thesis
    by (simp add: get_user_audit_logs_try_def Let_def expected_audit_request_def
        audit_filter_query_def entries_Cons)
qed

lemma get_user_audit_logs_try_calls:
  assumes "get_client gc = Inr c" and "time_window now days = Inr (start, end)"
    and "get_user_audit_logs_try gc now user_id days = Some (r, tr)"
  shows "\<exists>urls. calls_of tr
           = DirectoryAuditsGet (expected_audit_request user_id start end)
             # map (\<lambda>url. DirectoryAuditsWithUrlGet url (expected_audit_request user_id start end)) urls"
proof (cases "directory_audits_get c (expected_audit_request user_id start end)")
  case (Inl e)
  with assms have "calls_of tr = [DirectoryAuditsGet (expected_audit_request user_id start end)]"
    by (auto simp add: get_user_audit_logs_try_def Let_def expected_audit_request_def
        audit_filter_query_def)
  then show ?thesis by simp
next
  case (Inr response)
  let ?rc = "expected_audit_request user_id start end"
  let ?tr0 = "[Log INFO (''Fetching directory audit logs for user ID: '' @ user_id),
         Log INFO (''Date range: '' @ start @ '' to '' @ end),
         Log INFO (''Filter query: '' @ audit_filter_query user_id start end)]
        @ [Call (DirectoryAuditsGet ?rc)]"
  from assms Inr obtain y where
    loop: "directory_audits_loop c ?rc response (page_values response) ?tr0 = Some y"
    and tr: "tr = snd y"
    by (auto simp add: get_user_audit_logs_try_def Let_def expected_audit_request_def
        audit_filter_query_def split: option.splits sum.splits)
  from directory_audits_loop_calls [OF loop] tr obtain urls where
    "tr = ?tr0 @ map (\<lambda>url. Call (DirectoryAuditsWithUrlGet url ?rc)) urls"
    by auto
  then have "calls_of tr = DirectoryAuditsGet ?rc # map (\<lambda>url. DirectoryAuditsWithUrlGet url ?rc) urls"
    by (induction urls arbitrary: tr) (simp_all add: calls_of_append)
  then show ?thesis by blast
qed

lemma get_user_sign_in_logs_first_page:
  assumes "get_client gc = Inr c" and "time_window now days = Inr (start, end)"
    and "sign_ins_get c (expected_sign_in_request user_id start end) = Inr response"
  shows "fst (get_user_sign_in_logs gc now user_id days)
           = Inr (map format_sign_in (page_values response))"
  using assms
  by (simp add: get_user_sign_in_logs_def signin_log_error_and_raise_def Let_def
      expected_sign_in_request_def signin_filter_query_def)

lemma get_user_sign_in_logs_calls:
  assumes "get_client gc = Inr c" and "time_window now days = Inr (start, end)"
  shows "calls_of (snd (get_user_sign_in_logs gc now user_id days))
           = [SignInsGet (expected_sign_in_request user_id start end)]"
  using assms
  by (simp add: get_user_sign_in_logs_def signin_log_error_and_raise_def Let_def
      expected_sign_in_request_def signin_filter_query_def calls_of_append split: sum.splits)
lemma audit_chain:
  "page_chain (\<lambda>url. directory_audits_with_url_get audit_client url
       (expected_audit_request ''u-1'' ''2024-01-01T00:00:00Z'' ''2024-01-08T00:00:00Z''))
     audit_page_one [audit_page_two]"
  by (simp add: audit_client_def offline_client_def audit_page_one_def audit_page_two_def
      next_link_def)

lemma sign_in_first_page:
  "get_user_sign_in_logs (handle sign_in_client) now0 ''u-1'' 7 =
     (Inr [format_sign_in sign_in_plain, format_sign_in sign_in_full],
      [Log INFO ''Fetching sign-in logs for user ID: u-1'',
       Log INFO ''Date range: 2024-01-01T00:00:00Z to 2024-01-08T00:00:00Z'',
       Log INFO (''Filter query: '' @ qp_filter (expected_sign_in_request ''u-1''
          ''2024-01-01T00:00:00Z'' ''2024-01-08T00:00:00Z'')),
       Call (SignInsGet (expected_sign_in_request ''u-1'' ''2024-01-01T00:00:00Z''
          ''2024-01-08T00:00:00Z'')),
       Log INFO ''Found 2 sign-in records''])"
  by (simp add: get_user_sign_in_logs_def signin_log_error_and_raise_def handle_def time_window_now0 Let_def
      sign_in_client_def offline_client_def expected_sign_in_request_def signin_filter_query_def
      sign_in_page_one_def page_values_def or_nil_def str_int_def dec.simps digit_def)

text \<open>
  C3, as stated, fails for the sign-in logs: the first page bears a link, the transport holds
  a second page behind it, and \<open>get_user_sign_in_logs\<close> returns the two entries of the first
  page after a single request.
\<close>

theorem sign_in_logs_stop_after_first_page:
  "get_user_sign_in_logs (handle sign_in_client) now0 ''u-1'' 7 =
     (Inr [format_sign_in sign_in_plain, format_sign_in sign_in_full],
      [Log INFO ''Fetching sign-in logs for user ID: u-1'',
       Log INFO ''Date range: 2024-01-01T00:00:00Z to 2024-01-08T00:00:00Z'',
       Log INFO (''Filter query: '' @ qp_filter (expected_sign_in_request ''u-1''
          ''2024-01-01T00:00:00Z'' ''2024-01-08T00:00:00Z'')),
       Call (SignInsGet (expected_sign_in_request ''u-1'' ''2024-01-01T00:00:00Z''
          ''2024-01-08T00:00:00Z'')),
       Log INFO ''Found 2 sign-in records''])
   \<and> next_link (Some sign_in_page_one) = Some ''https://graph/signins-2''
   \<and> sign_ins_with_url_get sign_in_client ''https://graph/signins-2''
         (expected_sign_in_request ''u-1'' ''2024-01-01T00:00:00Z'' ''2024-01-08T00:00:00Z'')
       = Inr (Some sign_in_page_two)
   \<and> page_values (Some sign_in_page_two) = [sign_in_late]"
proof -
  have a: "next_link (Some sign_in_page_one) = Some ''https://graph/signins-2''"
    by (simp add: next_link_def sign_in_page_one_def)
  have b: "sign_ins_with_url_get sign_in_client ''https://graph/signins-2''
         (expected_sign_in_request ''u-1'' ''2024-01-01T00:00:00Z'' ''2024-01-08T00:00:00Z'')
       = Inr (Some sign_in_page_two)"
    by (simp add: sign_in_client_def)
  have c: "page_values (Some sign_in_page_two) = [sign_in_late]"
    by (simp add: page_values_def sign_in_page_two_def or_nil_def)
  from sign_in_first_page a b c show ?thesis by blast
qed


text \<open>
  C3, amended. \<open>get_user_audit_logs\<close> follows the links until a page bears none and returns
  the records of all pages in page order, none dropped and no limit applied.
  \<open>get_user_sign_in_logs\<close> issues one request and returns the records of the entries of that
  first response only.
\<close>

theorem log_pages_fetched:
  assumes "get_client gc = Inr c" and "time_window now days = Inr (start, end)"
  shows "(directory_audits_get c (expected_audit_request user_id start end) = Inr (Some p)
          \<and> page_chain (\<lambda>url. directory_audits_with_url_get c url
                (expected_audit_request user_id start end)) p qs \<longrightarrow>
            (\<exists>tr. get_user_audit_logs gc now user_id days
               = Some (Inr (map format_directory_audit (entries (p # qs))), tr)))
       \<and> (sign_ins_get c (expected_sign_in_request user_id start end) = Inr response \<longrightarrow>
            fst (get_user_sign_in_logs gc now user_id days)
              = Inr (map format_sign_in (page_values response))
            \<and> calls_of (snd (get_user_sign_in_logs gc now user_id days))
              = [SignInsGet (expected_sign_in_request user_id start end)])"
proof (intro conjI impI)
  assume a: "directory_audits_get c (expected_audit_request user_id start end) = Inr (Some p)
          \<and> page_chain (\<lambda>url. directory_audits_with_url_get c url
                (expected_audit_request user_id start end)) p qs"
  from get_user_audit_logs_try_chain [OF assms, of user_id p qs] a
  show "\<exists>tr. get_user_audit_logs gc now user_id days
               = Some (Inr (map format_directory_audit (entries (p # qs))), tr)"
    by (auto simp add: get_user_audit_logs_def log_error_and_raise_Inr)
next
  assume "sign_ins_get c (expected_sign_in_request user_id start end) = Inr response"
  from get_user_sign_in_logs_first_page [OF assms this]
  show "fst (get_user_sign_in_logs gc now user_id days)
              = Inr (map format_sign_in (page_values response))" .
next
  from get_user_sign_in_logs_calls [OF assms]
  show "calls_of (snd (get_user_sign_in_logs gc now user_id days))
              = [SignInsGet (expected_sign_in_request user_id start end)]" .
qed


text \<open>Two pages of audit logs, and the first of two pages of sign-in logs.\<close>

theorem log_pages_fetched_witness:
  "get_client (handle audit_client) = Inr audit_client
   \<and> get_client (handle sign_in_client) = Inr sign_in_client
   \<and> time_window now0 7 = Inr (''2024-01-01T00:00:00Z'', ''2024-01-08T00:00:00Z'')
   \<and> (\<exists>tr. get_user_audit_logs (handle audit_client) now0 ''u-1'' 7
              = Some (Inr [format_directory_audit audit_one, format_directory_audit audit_two], tr))
   \<and> fst (get_user_sign_in_logs (handle sign_in_client) now0 ''u-1'' 7)
       = Inr [format_sign_in sign_in_plain, format_sign_in sign_in_full]"
proof -
  have h1: "get_client (handle audit_client) = Inr audit_client"
    by (simp add: handle_def)
  have h2: "get_client (handle sign_in_client) = Inr sign_in_client"
    by (simp add: handle_def)
  have f1: "directory_audits_get audit_client
      (expected_audit_request ''u-1'' ''2024-01-01T00:00:00Z'' ''2024-01-08T00:00:00Z'')
      = Inr (Some audit_page_one)"
    by (simp add: audit_client_def)
  have f2: "sign_ins_get sign_in_client
      (expected_sign_in_request ''u-1'' ''2024-01-01T00:00:00Z'' ''2024-01-08T00:00:00Z'')
      = Inr (Some sign_in_page_one)"
    by (simp add: sign_in_client_def)
  have e1: "entries [audit_page_one, audit_page_two] = [audit_one, audit_two]"
    by (simp add: entries_def audit_page_one_def audit_page_two_def or_nil_def)
  have e2: "page_values (Some sign_in_page_one) = [sign_in_plain, sign_in_full]"
    by (simp add: page_values_def sign_in_page_one_def or_nil_def)
  from log_pages_fetched [OF h1 time_window_now0, of "''u-1''" audit_page_one "[audit_page_two]"]
    f1 audit_chain e1
  have a: "\<exists>tr. get_user_audit_logs (handle audit_client) now0 ''u-1'' 7
              = Some (Inr [format_directory_audit audit_one, format_directory_audit audit_two], tr)"
    by simp
  from log_pages_fetched [OF h2 time_window_now0, of "''u-1''" _ _ "Some sign_in_page_one"] f2 e2
  have b: "fst (get_user_sign_in_logs (handle sign_in_client) now0 ''u-1'' 7)
       = Inr [format_sign_in sign_in_plain, format_sign_in sign_in_full]"
    by simp
  from h1 h2 time_window_now0 a b show ?thesis by blast
qed


lemma followed_links_Cons:
  "followed_links (p # ps)
     = (case next_link (Some p) of None \<Rightarrow> [] | Some url \<Rightarrow> [url]) @ followed_links ps"
  by (simp add: followed_links_def)

lemma directory_audits_loop_chain_trace:
  "page_chain (\<lambda>url. directory_audits_with_url_get c url rc) p qs \<Longrightarrow>
   directory_audits_loop c rc (Some p) acc tr
     = Some (Inr (acc @ entries qs),
             tr @ map (\<lambda>url. Call (DirectoryAuditsWithUrlGet url rc)) (followed_links (p # qs)))"
proof (induction qs arbitrary: p acc tr)
  case Nil
  then show ?case
    by (subst directory_audits_loop.simps) (simp add: entries_def followed_links_def)
next
  case (Cons q qs)
  from Cons.prems obtain url where
    url: "next_link (Some p) = Some url" "directory_audits_with_url_get c url rc = Inr (Some q)"
    and chain: "page_chain (\<lambda>url. directory_audits_with_url_get c url rc) q qs"
    by (auto split: option.splits)
  from Cons.IH [OF chain, of "acc @ page_values (Some q)"
        "tr @ [Call (DirectoryAuditsWithUrlGet url rc)]"]
  show ?case
    using url
    by (subst directory_audits_loop.simps)
      (simp add: entries_Cons [of q] followed_links_Cons [of p])
qed

lemma get_user_audit_logs_chain_trace:
  assumes "get_client gc = Inr c" and "time_window now days = Inr (start, end)"
    and "directory_audits_get c (expected_audit_request user_id start end) = Inr (Some p)"
    and "page_chain (\<lambda>url. directory_audits_with_url_get c url
           (expected_audit_request user_id start end)) p qs"
  shows "get_user_audit_logs gc now user_id days
           = Some (Inr (map format_directory_audit (entries (p # qs))),
                   [Log INFO (''Fetching directory audit logs for user ID: '' @ user_id),
                    Log INFO (''Date range: '' @ start @ '' to '' @ end),
                    Log INFO (''Filter query: ''
                      @ qp_filter (expected_audit_request user_id start end)),
                    Call (DirectoryAuditsGet (expected_audit_request user_id start end))]
                   @ map (\<lambda>url. Call (DirectoryAuditsWithUrlGet url
                            (expected_audit_request user_id start end)))
                       (followed_links (p # qs)))"
proof -
  have "directory_audits_loop c (expected_audit_request user_id start end) (Some p)
       (page_values (Some p))
       ([Log INFO (''Fetching directory audit logs for user ID: '' @ user_id),
         Log INFO (''Date range: '' @ start @ '' to '' @ end),
         Log INFO (''Filter query: '' @ audit_filter_query user_id start end)]
        @ [Call (DirectoryAuditsGet (expected_audit_request user_id start end))])
     = Some (Inr (page_values (Some p) @ entries qs),
             ([Log INFO (''Fetching directory audit logs for user ID: '' @ user_id),
               Log INFO (''Date range: '' @ start @ '' to '' @ end),
               Log INFO (''Filter query: '' @ audit_filter_query user_id start end)]
              @ [Call (DirectoryAuditsGet (expected_audit_request user_id start end))])
             @ map (\<lambda>url. Call (DirectoryAuditsWithUrlGet url
                      (expected_audit_request user_id start end)))
                 (followed_links (p # qs)))"
    by (rule directory_audits_loop_chain_trace [OF assms(4)])
  with assms(1,2,3) show ?thesis
    by (simp add: get_user_audit_logs_def get_user_audit_logs_try_def Let_def
        expected_audit_request_def audit_filter_query_def entries_Cons
        log_error_and_raise_def)
qed

lemma get_user_audit_logs_first_raises:
  assumes "get_client gc = Inr c" and "time_window now days = Inr (start, end)"
    and "directory_audits_get c (expected_audit_request user_id start end) = Inl e"
  shows "get_user_audit_logs gc now user_id days
           = Some (Inl e,
                   [Log INFO (''Fetching directory audit logs for user ID: '' @ user_id),
                    Log INFO (''Date range: '' @ start @ '' to '' @ end),
                    Log INFO (''Filter query: ''
                      @ qp_filter (expected_audit_request user_id start end)),
                    Call (DirectoryAuditsGet (expected_audit_request user_id start end)),
                    Log ERROR (''Error fetching directory audit logs for user '' @ user_id
                      @ '': '' @ str_exn e)])"
  using assms
  by (simp add: get_user_audit_logs_def get_user_audit_logs_try_def Let_def
      expected_audit_request_def audit_filter_query_def log_error_and_raise_def)

text \<open>
  C8. For every user id and window, every request that \<open>get_user_audit_logs\<close> issues (the
  first one and each follow-up) carries the filter
  \<open>initiatedBy/user/id eq '<user_id>' and activityDateTime ge <start> and activityDateTime le <end>\<close>,
  orders by \<open>activityDateTime desc\<close>, asks for 1000 entries a page and bears the header
  \<open>ConsistencyLevel: eventual\<close>; the one request of \<open>get_user_sign_in_logs\<close> carries
  \<open>createdDateTime ge <start> and createdDateTime le <end> and userId eq '<user_id>'\<close>,
  orders by \<open>createdDateTime desc\<close>, with the same page size and header.
  The audit requests are issued: when the first request raises, the operation has sent it
  and raises; when the collection is laid out in pages, the operation returns after the
  first request and one follow-up for each link, all with that descriptor.
\<close>

theorem log_query_descriptors:
  assumes "get_client gc = Inr c" and "time_window now days = Inr (start, end)"
  shows "(get_user_audit_logs gc now user_id days = Some (r, tr) \<longrightarrow>
            calls_of tr \<noteq> []
            \<and> (\<forall>call \<in> set (calls_of tr).
                 call_configuration call =
                   Some \<lparr>qp_filter = ''initiatedBy/user/id eq '' @ [CHR 0x27] @ user_id @ [CHR 0x27]
                            @ '' and activityDateTime ge '' @ start
                            @ '' and activityDateTime le '' @ end,
                         qp_orderby = [''activityDateTime desc''],
                         qp_top = 1000,
                         headers = [(''ConsistencyLevel'', ''eventual'')]\<rparr>))
       \<and> calls_of (snd (get_user_sign_in_logs gc now user_id days))
           = [SignInsGet
                \<lparr>qp_filter = ''createdDateTime ge '' @ start @ '' and createdDateTime le '' @ end
                     @ '' and userId eq '' @ [CHR 0x27] @ user_id @ [CHR 0x27],
                  qp_orderby = [''createdDateTime desc''],
                  qp_top = 1000,
                  headers = [(''ConsistencyLevel'', ''eventual'')]\<rparr>]
       \<and> expected_audit_request user_id start end =
                   \<lparr>qp_filter = ''initiatedBy/user/id eq '' @ [CHR 0x27] @ user_id @ [CHR 0x27]
                            @ '' and activityDateTime ge '' @ start
                            @ '' and activityDateTime le '' @ end,
                         qp_orderby = [''activityDateTime desc''],
                         qp_top = 1000,
                         headers = [(''ConsistencyLevel'', ''eventual'')]\<rparr>
       \<and> (directory_audits_get c (expected_audit_request user_id start end) = Inl e \<longrightarrow>
            get_user_audit_logs gc now user_id days
              = Some (Inl e,
                   [Log INFO (''Fetching directory audit logs for user ID: '' @ user_id),
                    Log INFO (''Date range: '' @ start @ '' to '' @ end),
                    Log INFO (''Filter query: ''
                      @ qp_filter (expected_audit_request user_id start end)),
                    Call (DirectoryAuditsGet (expected_audit_request user_id start end)),
                    Log ERROR (''Error fetching directory audit logs for user '' @ user_id
                      @ '': '' @ str_exn e)]))
       \<and> (directory_audits_get c (expected_audit_request user_id start end) = Inr (Some p)
          \<and> page_chain (\<lambda>url. directory_audits_with_url_get c url
                (expected_audit_request user_id start end)) p qs \<longrightarrow>
            get_user_audit_logs gc now user_id days
              = Some (Inr (map format_directory_audit (entries (p # qs))),
                   [Log INFO (''Fetching directory audit logs for user ID: '' @ user_id),
                    Log INFO (''Date range: '' @ start @ '' to '' @ end),
                    Log INFO (''Filter query: ''
                      @ qp_filter (expected_audit_request user_id start end)),
                    Call (DirectoryAuditsGet (expected_audit_request user_id start end))]
                   @ map (\<lambda>url. Call (DirectoryAuditsWithUrlGet url
                            (expected_audit_request user_id start end)))
                       (followed_links (p # qs))))"
proof (intro conjI impI)
  assume "get_user_audit_logs gc now user_id days = Some (r, tr)"
  then obtain tr' where "get_user_audit_logs_try gc now user_id days = Some (r, tr')"
    and c: "calls_of tr = calls_of tr'"
    unfolding get_user_audit_logs_def using log_error_and_raise_result by blast
  from get_user_audit_logs_try_calls [OF assms this(1)] c obtain urls where
    calls: "calls_of tr = DirectoryAuditsGet (expected_audit_request user_id start end)
             # map (\<lambda>url. DirectoryAuditsWithUrlGet url (expected_audit_request user_id start end)) urls"
    by auto
  then show "calls_of tr \<noteq> []" by simp
  from calls show "\<forall>call \<in> set (calls_of tr).
                 call_configuration call =
                   Some \<lparr>qp_filter = ''initiatedBy/user/id eq '' @ [CHR 0x27] @ user_id @ [CHR 0x27]
                            @ '' and activityDateTime ge '' @ start
                            @ '' and activityDateTime le '' @ end,
                         qp_orderby = [''activityDateTime desc''],
                         qp_top = 1000,
                         headers = [(''ConsistencyLevel'', ''eventual'')]\<rparr>"
    by (auto simp add: expected_audit_request_def)
next
  from get_user_sign_in_logs_calls [OF assms, of user_id]
  show "calls_of (snd (get_user_sign_in_logs gc now user_id days))
           = [SignInsGet
                \<lparr>qp_filter = ''createdDateTime ge '' @ start @ '' and createdDateTime le '' @ end
                     @ '' and userId eq '' @ [CHR 0x27] @ user_id @ [CHR 0x27],
                  qp_orderby = [''createdDateTime desc''],
                  qp_top = 1000,
                  headers = [(''ConsistencyLevel'', ''eventual'')]\<rparr>]"
    by (simp add: expected_sign_in_request_def)
next
  show "expected_audit_request user_id start end =
                   \<lparr>qp_filter = ''initiatedBy/user/id eq '' @ [CHR 0x27] @ user_id @ [CHR 0x27]
                            @ '' and activityDateTime ge '' @ start
                            @ '' and activityDateTime le '' @ end,
                         qp_orderby = [''activityDateTime desc''],
                         qp_top = 1000,
                         headers = [(''ConsistencyLevel'', ''eventual'')]\<rparr>"
    by (simp add: expected_audit_request_def)
next
  assume "directory_audits_get c (expected_audit_request user_id start end) = Inl e"
  from get_user_audit_logs_first_raises [OF assms this]
  show "get_user_audit_logs gc now user_id days
              = Some (Inl e,
                   [Log INFO (''Fetching directory audit logs for user ID: '' @ user_id),
                    Log INFO (''Date range: '' @ start @ '' to '' @ end),
                    Log INFO (''Filter query: ''
                      @ qp_filter (expected_audit_request user_id start end)),
                    Call (DirectoryAuditsGet (expected_audit_request user_id start end)),
                    Log ERROR (''Error fetching directory audit logs for user '' @ user_id
                      @ '': '' @ str_exn e)])" .
next
  assume a: "directory_audits_get c (expected_audit_request user_id start end) = Inr (Some p)
          \<and> page_chain (\<lambda>url. directory_audits_with_url_get c url
                (expected_audit_request user_id start end)) p qs"
  from get_user_audit_logs_chain_trace [OF assms conjunct1 [OF a] conjunct2 [OF a]]
  show "get_user_audit_logs gc now user_id days
              = Some (Inr (map format_directory_audit (entries (p # qs))),
                   [Log INFO (''Fetching directory audit logs for user ID: '' @ user_id),
                    Log INFO (''Date range: '' @ start @ '' to '' @ end),
                    Log INFO (''Filter query: ''
                      @ qp_filter (expected_audit_request user_id start end)),
                    Call (DirectoryAuditsGet (expected_audit_request user_id start end))]
                   @ map (\<lambda>url. Call (DirectoryAuditsWithUrlGet url
                            (expected_audit_request user_id start end)))
                       (followed_links (p # qs)))" .
qed



text \<open>
  The two requests for the audit logs of user \<open>u-1\<close> over seven days, the audit request of a
  transport that is offline, and the sign-in request.
\<close>

theorem log_query_descriptors_witness:
  "get_client (handle audit_client) = Inr audit_client
   \<and> time_window now0 7 = Inr (''2024-01-01T00:00:00Z'', ''2024-01-08T00:00:00Z'')
   \<and> get_user_audit_logs (handle audit_client) now0 ''u-1'' 7
       = Some (Inr [format_directory_audit audit_one, format_directory_audit audit_two],
           [Log INFO ''Fetching directory audit logs for user ID: u-1'',
            Log INFO ''Date range: 2024-01-01T00:00:00Z to 2024-01-08T00:00:00Z'',
            Log INFO (''Filter query: initiatedBy/user/id eq '' @ [CHR 0x27] @ ''u-1''
              @ [CHR 0x27] @ '' and activityDateTime ge 2024-01-01T00:00:00Z''
              @ '' and activityDateTime le 2024-01-08T00:00:00Z''),
            Call (DirectoryAuditsGet
              \<lparr>qp_filter = ''initiatedBy/user/id eq '' @ [CHR 0x27] @ ''u-1'' @ [CHR 0x27]
                    @ '' and activityDateTime ge 2024-01-01T00:00:00Z''
                    @ '' and activityDateTime le 2024-01-08T00:00:00Z'',
                  qp_orderby = [''activityDateTime desc''],
                  qp_top = 1000,
                  headers = [(''ConsistencyLevel'', ''eventual'')]\<rparr>),
            Call (DirectoryAuditsWithUrlGet ''https://graph/audits-2''
              \<lparr>qp_filter = ''initiatedBy/user/id eq '' @ [CHR 0x27] @ ''u-1'' @ [CHR 0x27]
                    @ '' and activityDateTime ge 2024-01-01T00:00:00Z''
                    @ '' and activityDateTime le 2024-01-08T00:00:00Z'',
                  qp_orderby = [''activityDateTime desc''],
                  qp_top = 1000,
                  headers = [(''ConsistencyLevel'', ''eventual'')]\<rparr>)])
   \<and> get_user_audit_logs (handle offline_client) now0 ''u-1'' 7
       = Some (Inl offline,
           [Log INFO ''Fetching directory audit logs for user ID: u-1'',
            Log INFO ''Date range: 2024-01-01T00:00:00Z to 2024-01-08T00:00:00Z'',
            Log INFO (''Filter query: initiatedBy/user/id eq '' @ [CHR 0x27] @ ''u-1''
              @ [CHR 0x27] @ '' and activityDateTime ge 2024-01-01T00:00:00Z''
              @ '' and activityDateTime le 2024-01-08T00:00:00Z''),
            Call (DirectoryAuditsGet
              \<lparr>qp_filter = ''initiatedBy/user/id eq '' @ [CHR 0x27] @ ''u-1'' @ [CHR 0x27]
                    @ '' and activityDateTime ge 2024-01-01T00:00:00Z''
                    @ '' and activityDateTime le 2024-01-08T00:00:00Z'',
                  qp_orderby = [''activityDateTime desc''],
                  qp_top = 1000,
                  headers = [(''ConsistencyLevel'', ''eventual'')]\<rparr>),
            Log ERROR ''Error fetching directory audit logs for user u-1: offline''])
   \<and> calls_of (snd (get_user_sign_in_logs (handle audit_client) now0 ''u-1'' 7))
       = [SignInsGet
            \<lparr>qp_filter = ''createdDateTime ge 2024-01-01T00:00:00Z''
                 @ '' and createdDateTime le 2024-01-08T00:00:00Z''
                 @ '' and userId eq '' @ [CHR 0x27] @ ''u-1'' @ [CHR 0x27],
              qp_orderby = [''createdDateTime desc''],
              qp_top = 1000,
              headers = [(''ConsistencyLevel'', ''eventual'')]\<rparr>]"
proof -
  let ?rc = "expected_audit_request ''u-1'' ''2024-01-01T00:00:00Z'' ''2024-01-08T00:00:00Z''"
  have h1: "get_client (handle audit_client) = Inr audit_client"
    by (simp add: handle_def)
  have h2: "get_client (handle offline_client) = Inr offline_client"
    by (simp add: handle_def)
  have f1: "directory_audits_get audit_client ?rc = Inr (Some audit_page_one)"
    by (simp add: audit_client_def)
  have f2: "directory_audits_get offline_client ?rc = Inl offline"
    by (simp add: offline_client_def)
  have e1: "entries [audit_page_one, audit_page_two] = [audit_one, audit_two]"
    by (simp add: entries_def audit_page_one_def audit_page_two_def or_nil_def)
  have l1: "followed_links [audit_page_one, audit_page_two] = [''https://graph/audits-2'']"
    by (simp add: followed_links_def audit_page_one_def audit_page_two_def next_link_def)
  have m: "str_exn offline = ''offline''"
    by (simp add: offline_def)
  note t1 = log_query_descriptors [OF h1 time_window_now0,
      where user_id = "''u-1''" and p = audit_page_one and qs = "[audit_page_two]"]
  note t2 = log_query_descriptors [OF h2 time_window_now0,
      where user_id = "''u-1''" and e = offline]
  from t1 f1 audit_chain
  have "get_user_audit_logs (handle audit_client) now0 ''u-1'' 7
       = Some (Inr (map format_directory_audit (entries [audit_page_one, audit_page_two])),
           [Log INFO (''Fetching directory audit logs for user ID: '' @ ''u-1''),
            Log INFO (''Date range: '' @ ''2024-01-01T00:00:00Z'' @ '' to ''
              @ ''2024-01-08T00:00:00Z''),
            Log INFO (''Filter query: '' @ qp_filter ?rc),
            Call (DirectoryAuditsGet ?rc)]
           @ map (\<lambda>url. Call (DirectoryAuditsWithUrlGet url ?rc))
               (followed_links [audit_page_one, audit_page_two]))"
    by blast
  then have a: "get_user_audit_logs (handle audit_client) now0 ''u-1'' 7
       = Some (Inr [format_directory_audit audit_one, format_directory_audit audit_two],
           [Log INFO ''Fetching directory audit logs for user ID: u-1'',
            Log INFO ''Date range: 2024-01-01T00:00:00Z to 2024-01-08T00:00:00Z'',
            Log INFO (''Filter query: initiatedBy/user/id eq '' @ [CHR 0x27] @ ''u-1''
              @ [CHR 0x27] @ '' and activityDateTime ge 2024-01-01T00:00:00Z''
              @ '' and activityDateTime le 2024-01-08T00:00:00Z''),
            Call (DirectoryAuditsGet
              \<lparr>qp_filter = ''initiatedBy/user/id eq '' @ [CHR 0x27] @ ''u-1'' @ [CHR 0x27]
                    @ '' and activityDateTime ge 2024-01-01T00:00:00Z''
                    @ '' and activityDateTime le 2024-01-08T00:00:00Z'',
                  qp_orderby = [''activityDateTime desc''],
                  qp_top = 1000,
                  headers = [(''ConsistencyLevel'', ''eventual'')]\<rparr>),
            Call (DirectoryAuditsWithUrlGet ''https://graph/audits-2''
              \<lparr>qp_filter = ''initiatedBy/user/id eq '' @ [CHR 0x27] @ ''u-1'' @ [CHR 0x27]
                    @ '' and activityDateTime ge 2024-01-01T00:00:00Z''
                    @ '' and activityDateTime le 2024-01-08T00:00:00Z'',
                  qp_orderby = [''activityDateTime desc''],
                  qp_top = 1000,
                  headers = [(''ConsistencyLevel'', ''eventual'')]\<rparr>)])"
    by (simp add: e1 l1 expected_audit_request_def)
  from t2 f2
  have "get_user_audit_logs (handle offline_client) now0 ''u-1'' 7
       = Some (Inl offline,
           [Log INFO (''Fetching directory audit logs for user ID: '' @ ''u-1''),
            Log INFO (''Date range: '' @ ''2024-01-01T00:00:00Z'' @ '' to ''
              @ ''2024-01-08T00:00:00Z''),
            Log INFO (''Filter query: '' @ qp_filter ?rc),
            Call (DirectoryAuditsGet ?rc),
            Log ERROR (''Error fetching directory audit logs for user '' @ ''u-1''
              @ '': '' @ str_exn offline)])"
    by blast
  then have b: "get_user_audit_logs (handle offline_client) now0 ''u-1'' 7
       = Some (Inl offline,
           [Log INFO ''Fetching directory audit logs for user ID: u-1'',
            Log INFO ''Date range: 2024-01-01T00:00:00Z to 2024-01-08T00:00:00Z'',
            Log INFO (''Filter query: initiatedBy/user/id eq '' @ [CHR 0x27] @ ''u-1''
              @ [CHR 0x27] @ '' and activityDateTime ge 2024-01-01T00:00:00Z''
              @ '' and activityDateTime le 2024-01-08T00:00:00Z''),
            Call (DirectoryAuditsGet
              \<lparr>qp_filter = ''initiatedBy/user/id eq '' @ [CHR 0x27] @ ''u-1'' @ [CHR 0x27]
                    @ '' and activityDateTime ge 2024-01-01T00:00:00Z''
                    @ '' and activityDateTime le 2024-01-08T00:00:00Z'',
                  qp_orderby = [''activityDateTime desc''],
                  qp_top = 1000,
                  headers = [(''ConsistencyLevel'', ''eventual'')]\<rparr>),
            Log ERROR ''Error fetching directory audit logs for user u-1: offline''])"
    by (simp add: m expected_audit_request_def)
  from t1 have c: "calls_of (snd (get_user_sign_in_logs (handle audit_client) now0 ''u-1'' 7))
       = [SignInsGet
            \<lparr>qp_filter = ''createdDateTime ge 2024-01-01T00:00:00Z''
                 @ '' and createdDateTime le 2024-01-08T00:00:00Z''
                 @ '' and userId eq '' @ [CHR 0x27] @ ''u-1'' @ [CHR 0x27],
              qp_orderby = [''createdDateTime desc''],
              qp_top = 1000,
              headers = [(''ConsistencyLevel'', ''eventual'')]\<rparr>]"
    by simp
  from h1 time_window_now0 a b c show ?thesis by blast
qed

subsection \<open>The service principal and its sub-collections\<close>

lemma log_error_and_raise_Inl:
  "log_error_and_raise msg (Inl e, tr) = (Inl e, tr @ [Log ERROR (msg @ str_exn e)])"
  by (simp add: log_error_and_raise_def)

lemma enrich_format_application:
  "dict_set (dict_set (format_application app) ''appRoleAssignments'' v)
     ''oauth2PermissionGrants'' w
   = format_application app @ [(''appRoleAssignments'', v), (''oauth2PermissionGrants'', w)]"
  by (simp add: format_application_def)

lemma app_role_assignments_loop_raises:
  "raises_after (app_role_assignments_with_url_get c sp_id) p qs e \<Longrightarrow>
   \<exists>tr'. app_role_assignments_loop c sp_id (Some p) acc tr
           = Some (Some e, acc @ map format_app_role_assignment (entries (p # qs)), tr')"
proof (induction qs arbitrary: p acc tr)
  case Nil
  then show ?case
    by (subst app_role_assignments_loop.simps)
      (auto simp add: entries_def split: option.splits)
next
  case (Cons q qs)
  from Cons.prems obtain url where
    url: "next_link (Some p) = Some url"
      "app_role_assignments_with_url_get c sp_id url = Inr (Some q)"
    and rest: "raises_after (app_role_assignments_with_url_get c sp_id) q qs e"
    by (auto split: option.splits)
  from Cons.IH [OF rest, of "acc @ map format_app_role_assignment (or_nil (resp_value p))"
      "tr @ [Call (AppRoleAssignmentsWithUrlGet sp_id url)]"]
  show ?case
    using url
    by (subst app_role_assignments_loop.simps)
      (simp add: entries_Cons [of p] page_values_def)
qed

lemma fetch_app_role_assignments_raises:
  assumes "fetch_raises (app_role_assignments_get c sp_id)
             (app_role_assignments_with_url_get c sp_id) ps e"
  shows "\<exists>tr. fetch_app_role_assignments c sp_id
           = Some (map format_app_role_assignment (entries ps),
                   tr @ [Log WARNING (''Error fetching appRoleAssignments for service principal ''
                           @ str_opt sp_id @ '': '' @ str_exn e)])"
proof (cases ps)
  case Nil
  with assms have "app_role_assignments_get c sp_id = Inl e"
    by (simp add: fetch_raises_def)
  then have "fetch_app_role_assignments c sp_id
           = Some (map format_app_role_assignment (entries ps),
                   [Call (AppRoleAssignmentsGet sp_id)]
                   @ [Log WARNING (''Error fetching appRoleAssignments for service principal ''
                           @ str_opt sp_id @ '': '' @ str_exn e)])"
    using Nil by (simp add: fetch_app_role_assignments_def entries_def)
  then show ?thesis by blast
next
  case (Cons p qs)
  with assms have first: "app_role_assignments_get c sp_id = Inr (Some p)"
    and rest: "raises_after (app_role_assignments_with_url_get c sp_id) p qs e"
    by (simp_all add: fetch_raises_def)
  from app_role_assignments_loop_raises [OF rest, of "[]" "[Call (AppRoleAssignmentsGet sp_id)]"]
  obtain tr' where
    "app_role_assignments_loop c sp_id (Some p) [] [Call (AppRoleAssignmentsGet sp_id)]
       = Some (Some e, map format_app_role_assignment (entries (p # qs)), tr')"
    by auto
  with first Cons show ?thesis
    by (simp add: fetch_app_role_assignments_def)
qed

lemma oauth2_permission_grants_loop_raises:
  "raises_after (oauth2_permission_grants_with_url_get c sp_id) p qs e \<Longrightarrow>
   \<exists>tr'. oauth2_permission_grants_loop c sp_id (Some p) acc tr
           = Some (Some e, acc @ map format_oauth2_permission_grant (entries (p # qs)), tr')"
proof (induction qs arbitrary: p acc tr)
  case Nil
  then show ?case
    by (subst oauth2_permission_grants_loop.simps)
      (auto simp add: entries_def split: option.splits)
next
  case (Cons q qs)
  from Cons.prems obtain url where
    url: "next_link (Some p) = Some url"
      "oauth2_permission_grants_with_url_get c sp_id url = Inr (Some q)"
    and rest: "raises_after (oauth2_permission_grants_with_url_get c sp_id) q qs e"
    by (auto split: option.splits)
  from Cons.IH [OF rest, of "acc @ map format_oauth2_permission_grant (or_nil (resp_value p))"
      "tr @ [Call (Oauth2PermissionGrantsWithUrlGet sp_id url)]"]
  show ?case
    using url
    by (subst oauth2_permission_grants_loop.simps)
      (simp add: entries_Cons [of p] page_values_def)
qed

lemma fetch_oauth2_permission_grants_raises:
  assumes "fetch_raises (oauth2_permission_grants_get c sp_id)
             (oauth2_permission_grants_with_url_get c sp_id) ps e"
  shows "\<exists>tr. fetch_oauth2_permission_grants c sp_id
           = Some (map format_oauth2_permission_grant (entries ps),
                   tr @ [Log WARNING (''Error fetching oauth2PermissionGrants for service principal ''
                           @ str_opt sp_id @ '': '' @ str_exn e)])"
proof (cases ps)
  case Nil
  with assms have "oauth2_permission_grants_get c sp_id = Inl e"
    by (simp add: fetch_raises_def)
  then have "fetch_oauth2_permission_grants c sp_id
           = Some (map format_oauth2_permission_grant (entries ps),
                   [Call (Oauth2PermissionGrantsGet sp_id)]
                   @ [Log WARNING (''Error fetching oauth2PermissionGrants for service principal ''
                           @ str_opt sp_id @ '': '' @ str_exn e)])"
    using Nil by (simp add: fetch_oauth2_permission_grants_def entries_def)
  then show ?thesis by blast
next
  case (Cons p qs)
  with assms have first: "oauth2_permission_grants_get c sp_id = Inr (Some p)"
    and rest: "raises_after (oauth2_permission_grants_with_url_get c sp_id) p qs e"
    by (simp_all add: fetch_raises_def)
  from oauth2_permission_grants_loop_raises [OF rest, of "[]"
      "[Call (Oauth2PermissionGrantsGet sp_id)]"]
  obtain tr' where
    "oauth2_permission_grants_loop c sp_id (Some p) [] [Call (Oauth2PermissionGrantsGet sp_id)]
       = Some (Some e, map format_oauth2_permission_grant (entries (p # qs)), tr')"
    by auto
  with first Cons show ?thesis
    by (simp add: fetch_oauth2_permission_grants_def)
qed

text \<open>What get_application_by_id does once the service principal is resolved.\<close>

lemma get_application_by_id_resolved:
  assumes "get_client gc = Inr c" and "applications_by_id_get c app_id = Inr (Some app)"
    and "get_service_principal_by_app_id gc (a_app_id app) = Inr (Some sp)"
    and "fetch_app_role_assignments c (spn_id sp) = Some (assignments, tr1)"
    and "fetch_oauth2_permission_grants c (spn_id sp) = Some (grants, tr2)"
  shows "get_application_by_id gc app_id =
     Some (Inr (Some (format_application app
                  @ [(''appRoleAssignments'', JList (map JObj assignments)),
                     (''oauth2PermissionGrants'', JList (map JObj grants))])),
           [Call (ApplicationsByIdGet app_id), Call (ServicePrincipalByAppId (a_app_id app))]
             @ tr1 @ tr2)"
  using assms
  by (simp add: get_application_by_id_def get_application_by_id_try_def
      enrich_format_application log_error_and_raise_Inr)

lemma get_application_by_id_resolved_result:
  assumes "get_client gc = Inr c" and "applications_by_id_get c app_id = Inr (Some app)"
    and "get_service_principal_by_app_id gc (a_app_id app) = Inr (Some sp)"
    and "get_application_by_id gc app_id = Some (r, tr)"
  shows "\<exists>assignments tr1 grants tr2.
           fetch_app_role_assignments c (spn_id sp) = Some (assignments, tr1)
           \<and> fetch_oauth2_permission_grants c (spn_id sp) = Some (grants, tr2)
           \<and> r = Inr (Some (format_application app
                  @ [(''appRoleAssignments'', JList (map JObj assignments)),
                     (''oauth2PermissionGrants'', JList (map JObj grants))]))"
proof (cases "fetch_app_role_assignments c (spn_id sp)")
  case None
  with assms show ?thesis
    by (simp add: get_application_by_id_def get_application_by_id_try_def)
next
  case (Some a)
  obtain assignments tr1 where a: "a = (assignments, tr1)" by (cases a)
  show ?thesis
  proof (cases "fetch_oauth2_permission_grants c (spn_id sp)")
    case None
    with assms Some a show ?thesis
      by (simp add: get_application_by_id_def get_application_by_id_try_def)
  next
    case (Some b)
    obtain grants tr2 where b: "b = (grants, tr2)" by (cases b)
    from get_application_by_id_resolved [OF assms(1,2,3)
        \<open>fetch_app_role_assignments c (spn_id sp) = Some a\<close> [unfolded a] Some [unfolded b]]
      assms(4) \<open>fetch_app_role_assignments c (spn_id sp) = Some a\<close> a Some b
    show ?thesis by auto
  qed
qed
lemma resolver_raises_run:
  "get_application_by_id resolver_raises ''o-1'' =
     Some (Inl (Exception ''directory unavailable''),
           [Call (ApplicationsByIdGet ''o-1''),
            Call (ServicePrincipalByAppId (Some ''c-1'')),
            Log ERROR ''Error getting application o-1: directory unavailable''])"
  by (simp add: get_application_by_id_def get_application_by_id_try_def resolver_raises_def
      writing_client_def offline_client_def app_one_def log_error_and_raise_def)


text \<open>
  C1, as stated, fails: the application \<open>o-1\<close> is fetched, resolving its service principal
  raises, and \<open>get_application_by_id\<close> raises that exception again after logging it at
  error level; no record is returned.
\<close>

theorem service_principal_failure_propagates:
  "applications_by_id_get writing_client ''o-1'' = Inr (Some app_one)
   \<and> get_service_principal_by_app_id resolver_raises (a_app_id app_one)
       = Inl (Exception ''directory unavailable'')
   \<and> get_application_by_id resolver_raises ''o-1'' =
       Some (Inl (Exception ''directory unavailable''),
             [Call (ApplicationsByIdGet ''o-1''),
              Call (ServicePrincipalByAppId (Some ''c-1'')),
              Log ERROR ''Error getting application o-1: directory unavailable''])"
proof -
  have a: "applications_by_id_get writing_client ''o-1'' = Inr (Some app_one)"
    by (simp add: writing_client_def)
  have b: "get_service_principal_by_app_id resolver_raises (a_app_id app_one)
       = Inl (Exception ''directory unavailable'')"
    by (simp add: resolver_raises_def)
  from a b resolver_raises_run show ?thesis by blast
qed


text \<open>
  C1, amended. In \<open>get_application_by_id\<close>, an exception raised while resolving the service
  principal is handled like one raised by the top-level application fetch: the \<open>except\<close>
  clause of the operation logs it at error level and raises it again. When the resolver
  returns no service principal, the application record is returned with
  \<open>appRoleAssignments\<close> and \<open>oauth2PermissionGrants\<close> set to empty lists.
\<close>

theorem service_principal_resolution:
  assumes "get_client gc = Inr c"
  shows "(applications_by_id_get c app_id = Inl e \<longrightarrow>
            get_application_by_id gc app_id =
              Some (Inl e,
                    [Call (ApplicationsByIdGet app_id),
                     Log ERROR (''Error getting application '' @ app_id @ '': '' @ str_exn e)]))
       \<and> (applications_by_id_get c app_id = Inr (Some app)
          \<and> get_service_principal_by_app_id gc (a_app_id app) = Inl e \<longrightarrow>
            get_application_by_id gc app_id =
              Some (Inl e,
                    [Call (ApplicationsByIdGet app_id),
                     Call (ServicePrincipalByAppId (a_app_id app)),
                     Log ERROR (''Error getting application '' @ app_id @ '': '' @ str_exn e)]))
       \<and> (applications_by_id_get c app_id = Inr (Some app)
          \<and> get_service_principal_by_app_id gc (a_app_id app) = Inr None \<longrightarrow>
            get_application_by_id gc app_id =
              Some (Inr (Some (format_application app
                          @ [(''appRoleAssignments'', JList []),
                             (''oauth2PermissionGrants'', JList [])])),
                    [Call (ApplicationsByIdGet app_id),
                     Call (ServicePrincipalByAppId (a_app_id app))]))"
  using assms
  by (simp add: get_application_by_id_def get_application_by_id_try_def
      enrich_format_application log_error_and_raise_Inr log_error_and_raise_Inl)


text \<open>A top-level fetch that raises, a resolver that raises, and a resolver that finds none.\<close>

theorem service_principal_resolution_witness:
  "get_client resolver_raises = Inr writing_client
   \<and> get_client (handle writing_client) = Inr writing_client
   \<and> applications_by_id_get writing_client ''o-1'' = Inr (Some app_one)
   \<and> get_application_by_id (handle offline_client) ''o-1'' =
       Some (Inl offline,
             [Call (ApplicationsByIdGet ''o-1''),
              Log ERROR ''Error getting application o-1: offline''])
   \<and> get_application_by_id resolver_raises ''o-1'' =
       Some (Inl (Exception ''directory unavailable''),
             [Call (ApplicationsByIdGet ''o-1''),
              Call (ServicePrincipalByAppId (Some ''c-1'')),
              Log ERROR ''Error getting application o-1: directory unavailable''])
   \<and> get_application_by_id (handle writing_client) ''o-1'' =
       Some (Inr (Some (format_application app_one
                   @ [(''appRoleAssignments'', JList []),
                      (''oauth2PermissionGrants'', JList [])])),
             [Call (ApplicationsByIdGet ''o-1''),
              Call (ServicePrincipalByAppId (Some ''c-1''))])"
proof -
  have h1: "get_client resolver_raises = Inr writing_client"
    by (simp add: resolver_raises_def)
  have h2: "get_client (handle writing_client) = Inr writing_client"
    by (simp add: handle_def)
  have a: "applications_by_id_get writing_client ''o-1'' = Inr (Some app_one)"
    by (simp add: writing_client_def)
  have b: "get_service_principal_by_app_id resolver_raises (a_app_id app_one)
       = Inl (Exception ''directory unavailable'')"
    by (simp add: resolver_raises_def)
  have c: "get_service_principal_by_app_id (handle writing_client) (a_app_id app_one) = Inr None"
    by (simp add: handle_def)
  have d: "a_app_id app_one = Some ''c-1''"
    by (simp add: app_one_def)
  have h3: "get_client (handle offline_client) = Inr offline_client"
    by (simp add: handle_def)
  have f: "applications_by_id_get offline_client ''o-1'' = Inl offline"
    by (simp add: offline_client_def)
  from service_principal_resolution [OF h3, of "''o-1''" offline] f
  have 0: "get_application_by_id (handle offline_client) ''o-1'' =
       Some (Inl offline,
             [Call (ApplicationsByIdGet ''o-1''),
              Log ERROR ''Error getting application o-1: offline''])"
    by (simp add: offline_def)
  from service_principal_resolution [OF h1, of "''o-1''" "Exception ''directory unavailable''"
      app_one] a b d
  have 1: "get_application_by_id resolver_raises ''o-1'' =
       Some (Inl (Exception ''directory unavailable''),
             [Call (ApplicationsByIdGet ''o-1''),
              Call (ServicePrincipalByAppId (Some ''c-1'')),
              Log ERROR ''Error getting application o-1: directory unavailable''])"
    by simp
  from service_principal_resolution [OF h2, of "''o-1''" _ app_one] a c d
  have 2: "get_application_by_id (handle writing_client) ''o-1'' =
       Some (Inr (Some (format_application app_one
                   @ [(''appRoleAssignments'', JList []),
                      (''oauth2PermissionGrants'', JList [])])),
             [Call (ApplicationsByIdGet ''o-1''),
              Call (ServicePrincipalByAppId (Some ''c-1''))])"
    by simp
  from h1 h2 a 0 1 2 show ?thesis by blast
qed

lemma broken_roles_run:
  "get_application_by_id (resolved broken_roles_client) ''o-1'' =
     Some (Inr (Some (format_application app_one
                 @ [(''appRoleAssignments'',
                     JList [JObj (format_app_role_assignment assignment_one)]),
                    (''oauth2PermissionGrants'', JList [])])),
           [Call (ApplicationsByIdGet ''o-1''),
            Call (ServicePrincipalByAppId (Some ''c-1'')),
            Call (AppRoleAssignmentsGet (Some ''sp-1'')),
            Call (AppRoleAssignmentsWithUrlGet (Some ''sp-1'') ''https://graph/roles-2''),
            Log WARNING
              ''Error fetching appRoleAssignments for service principal sp-1: offline'',
            Call (Oauth2PermissionGrantsGet (Some ''sp-1''))])"
proof -
  have a: "fetch_app_role_assignments broken_roles_client (Some ''sp-1'') =
      Some ([format_app_role_assignment assignment_one],
            [Call (AppRoleAssignmentsGet (Some ''sp-1'')),
             Call (AppRoleAssignmentsWithUrlGet (Some ''sp-1'') ''https://graph/roles-2''),
             Log WARNING
               ''Error fetching appRoleAssignments for service principal sp-1: offline''])"
    by (simp add: fetch_app_role_assignments_def broken_roles_client_def writing_client_def
        offline_client_def assignments_page_def app_role_assignments_loop.simps next_link_def
        or_nil_def str_opt_def offline_def)
  have b: "fetch_oauth2_permission_grants broken_roles_client (Some ''sp-1'') =
      Some ([], [Call (Oauth2PermissionGrantsGet (Some ''sp-1''))])"
    by (simp add: fetch_oauth2_permission_grants_def broken_roles_client_def writing_client_def
        offline_client_def no_grants_page_def oauth2_permission_grants_loop.simps next_link_def
        or_nil_def)
  have h: "get_client (resolved broken_roles_client) = Inr broken_roles_client"
    by (simp add: resolved_def)
  have g: "applications_by_id_get broken_roles_client ''o-1'' = Inr (Some app_one)"
    by (simp add: broken_roles_client_def writing_client_def)
  have r: "get_service_principal_by_app_id (resolved broken_roles_client) (a_app_id app_one)
      = Inr (Some \<lparr>spn_id = Some ''sp-1''\<rparr>)"
    by (simp add: resolved_def)
  from a have a': "fetch_app_role_assignments broken_roles_client
      (spn_id \<lparr>spn_id = Some ''sp-1''\<rparr>) =
      Some ([format_app_role_assignment assignment_one],
            [Call (AppRoleAssignmentsGet (Some ''sp-1'')),
             Call (AppRoleAssignmentsWithUrlGet (Some ''sp-1'') ''https://graph/roles-2''),
             Log WARNING
               ''Error fetching appRoleAssignments for service principal sp-1: offline''])"
    by simp
  from b have b': "fetch_oauth2_permission_grants broken_roles_client
      (spn_id \<lparr>spn_id = Some ''sp-1''\<rparr>) =
      Some ([], [Call (Oauth2PermissionGrantsGet (Some ''sp-1''))])"
    by simp
  from get_application_by_id_resolved [OF h g r a' b']
  show ?thesis by (simp add: app_one_def)
qed


text \<open>
  C4, as stated, fails: the first page of role assignments is read, its link raises, and
  the record is returned with the entry of the first page under \<open>appRoleAssignments\<close>, not
  with an empty list.
\<close>

theorem sub_collection_failure_keeps_fetched_pages:
  "app_role_assignments_get broken_roles_client (Some ''sp-1'') = Inr (Some assignments_page)
   \<and> app_role_assignments_with_url_get broken_roles_client (Some ''sp-1'')
         ''https://graph/roles-2'' = Inl offline
   \<and> get_application_by_id (resolved broken_roles_client) ''o-1'' =
     Some (Inr (Some (format_application app_one
                 @ [(''appRoleAssignments'',
                     JList [JObj (format_app_role_assignment assignment_one)]),
                    (''oauth2PermissionGrants'', JList [])])),
           [Call (ApplicationsByIdGet ''o-1''),
            Call (ServicePrincipalByAppId (Some ''c-1'')),
            Call (AppRoleAssignmentsGet (Some ''sp-1'')),
            Call (AppRoleAssignmentsWithUrlGet (Some ''sp-1'') ''https://graph/roles-2''),
            Log WARNING
              ''Error fetching appRoleAssignments for service principal sp-1: offline'',
            Call (Oauth2PermissionGrantsGet (Some ''sp-1''))])"
proof -
  have a: "app_role_assignments_get broken_roles_client (Some ''sp-1'')
      = Inr (Some assignments_page)"
    by (simp add: broken_roles_client_def)
  have b: "app_role_assignments_with_url_get broken_roles_client (Some ''sp-1'')
         ''https://graph/roles-2'' = Inl offline"
    by (simp add: broken_roles_client_def writing_client_def offline_client_def)
  from a b broken_roles_run show ?thesis by blast
qed


text \<open>
  C4, amended. In \<open>get_application_by_id\<close>, when fetching one of the two sub-collections of
  the service principal raises, the exception is caught and logged as a warning, and the
  value under that key is the list of the entries of the pages read before the exception
  (the empty list when the first request raises). The exception does not propagate: once
  the service principal is resolved, whatever \<open>get_application_by_id\<close> returns is the
  application record with both keys.
\<close>

theorem sub_collection_failure_isolated:
  assumes "get_client gc = Inr c" and "applications_by_id_get c app_id = Inr (Some app)"
    and "get_service_principal_by_app_id gc (a_app_id app) = Inr (Some sp)"
  shows "(fetch_raises (app_role_assignments_get c (spn_id sp))
             (app_role_assignments_with_url_get c (spn_id sp)) ps e
          \<and> fetch_oauth2_permission_grants c (spn_id sp) = Some (grants, tr2) \<longrightarrow>
            (\<exists>tr1. get_application_by_id gc app_id =
               Some (Inr (Some (format_application app
                      @ [(''appRoleAssignments'',
                          JList (map JObj (map format_app_role_assignment (entries ps)))),
                         (''oauth2PermissionGrants'', JList (map JObj grants))])),
                     [Call (ApplicationsByIdGet app_id),
                      Call (ServicePrincipalByAppId (a_app_id app))]
                     @ (tr1 @ [Log WARNING
                          (''Error fetching appRoleAssignments for service principal ''
                             @ str_opt (spn_id sp) @ '': '' @ str_exn e)])
                     @ tr2)))
       \<and> (fetch_app_role_assignments c (spn_id sp) = Some (assignments, tr1)
          \<and> fetch_raises (oauth2_permission_grants_get c (spn_id sp))
               (oauth2_permission_grants_with_url_get c (spn_id sp)) gs e' \<longrightarrow>
            (\<exists>tr2. get_application_by_id gc app_id =
               Some (Inr (Some (format_application app
                      @ [(''appRoleAssignments'', JList (map JObj assignments)),
                         (''oauth2PermissionGrants'',
                          JList (map JObj (map format_oauth2_permission_grant (entries gs))))])),
                     [Call (ApplicationsByIdGet app_id),
                      Call (ServicePrincipalByAppId (a_app_id app))]
                     @ tr1
                     @ (tr2 @ [Log WARNING
                          (''Error fetching oauth2PermissionGrants for service principal ''
                             @ str_opt (spn_id sp) @ '': '' @ str_exn e')]))))
       \<and> (get_application_by_id gc app_id = Some (r, tr) \<longrightarrow>
            (\<exists>assignments grants.
               r = Inr (Some (format_application app
                      @ [(''appRoleAssignments'', JList (map JObj assignments)),
                         (''oauth2PermissionGrants'', JList (map JObj grants))]))))"
proof (intro conjI impI)
  assume a: "fetch_raises (app_role_assignments_get c (spn_id sp))
             (app_role_assignments_with_url_get c (spn_id sp)) ps e
          \<and> fetch_oauth2_permission_grants c (spn_id sp) = Some (grants, tr2)"
  then obtain tr1 where
    f: "fetch_app_role_assignments c (spn_id sp)
           = Some (map format_app_role_assignment (entries ps),
                   tr1 @ [Log WARNING (''Error fetching appRoleAssignments for service principal ''
                           @ str_opt (spn_id sp) @ '': '' @ str_exn e)])"
    using fetch_app_role_assignments_raises by blast
  from a have g: "fetch_oauth2_permission_grants c (spn_id sp) = Some (grants, tr2)" by simp
  from get_application_by_id_resolved [OF assms f g]
  show "\<exists>tr1. get_application_by_id gc app_id =
               Some (Inr (Some (format_application app
                      @ [(''appRoleAssignments'',
                          JList (map JObj (map format_app_role_assignment (entries ps)))),
                         (''oauth2PermissionGrants'', JList (map JObj grants))])),
                     [Call (ApplicationsByIdGet app_id),
                      Call (ServicePrincipalByAppId (a_app_id app))]
                     @ (tr1 @ [Log WARNING
                          (''Error fetching appRoleAssignments for service principal ''
                             @ str_opt (spn_id sp) @ '': '' @ str_exn e)])
                     @ tr2)"
    by blast
next
  assume a: "fetch_app_role_assignments c (spn_id sp) = Some (assignments, tr1)
          \<and> fetch_raises (oauth2_permission_grants_get c (spn_id sp))
               (oauth2_permission_grants_with_url_get c (spn_id sp)) gs e'"
  then obtain tr2 where
    g: "fetch_oauth2_permission_grants c (spn_id sp)
           = Some (map format_oauth2_permission_grant (entries gs),
                   tr2 @ [Log WARNING (''Error fetching oauth2PermissionGrants for service principal ''
                           @ str_opt (spn_id sp) @ '': '' @ str_exn e')])"
    using fetch_oauth2_permission_grants_raises by blast
  from a have f: "fetch_app_role_assignments c (spn_id sp) = Some (assignments, tr1)" by simp
  from get_application_by_id_resolved [OF assms f g]
  show "\<exists>tr2. get_application_by_id gc app_id =
               Some (Inr (Some (format_application app
                      @ [(''appRoleAssignments'', JList (map JObj assignments)),
                         (''oauth2PermissionGrants'',
                          JList (map JObj (map format_oauth2_permission_grant (entries gs))))])),
                     [Call (ApplicationsByIdGet app_id),
                      Call (ServicePrincipalByAppId (a_app_id app))]
                     @ tr1
                     @ (tr2 @ [Log WARNING
                          (''Error fetching oauth2PermissionGrants for service principal ''
                             @ str_opt (spn_id sp) @ '': '' @ str_exn e')]))"
    by blast
next
  assume "get_application_by_id gc app_id = Some (r, tr)"
  from get_application_by_id_resolved_result [OF assms this]
  show "\<exists>assignments grants.
               r = Inr (Some (format_application app
                      @ [(''appRoleAssignments'', JList (map JObj assignments)),
                         (''oauth2PermissionGrants'', JList (map JObj grants))]))"
    by blast
qed


lemma writing_client_fetch_grants:
  "fetch_oauth2_permission_grants writing_client (Some ''sp-1'') =
     Some ([], [Call (Oauth2PermissionGrantsGet (Some ''sp-1'')),
                Log WARNING
                  ''Error fetching oauth2PermissionGrants for service principal sp-1: offline''])"
  by (simp add: fetch_oauth2_permission_grants_def writing_client_def offline_client_def
      str_opt_def offline_def)

lemma broken_grants_fetch_roles:
  "fetch_app_role_assignments broken_grants_client (Some ''sp-1'') =
     Some ([], [Call (AppRoleAssignmentsGet (Some ''sp-1''))])"
  by (simp add: fetch_app_role_assignments_def broken_grants_client_def writing_client_def
      offline_client_def no_assignments_page_def app_role_assignments_loop.simps next_link_def
      or_nil_def)


text \<open>
  Both first requests raise (both lists empty); and the grants raise on their second page
  (the grant of the first page is kept).
\<close>

theorem sub_collection_failure_isolated_witness:
  "fetch_raises (app_role_assignments_get writing_client (Some ''sp-1''))
     (app_role_assignments_with_url_get writing_client (Some ''sp-1'')) [] offline
   \<and> fetch_raises (oauth2_permission_grants_get broken_grants_client (Some ''sp-1''))
       (oauth2_permission_grants_with_url_get broken_grants_client (Some ''sp-1''))
       [grants_page] offline
   \<and> (\<exists>tr1. get_application_by_id (resolved writing_client) ''o-1'' =
         Some (Inr (Some (format_application app_one
                     @ [(''appRoleAssignments'', JList []),
                        (''oauth2PermissionGrants'', JList [])])),
               [Call (ApplicationsByIdGet ''o-1''),
                Call (ServicePrincipalByAppId (Some ''c-1''))]
               @ (tr1 @ [Log WARNING
                   ''Error fetching appRoleAssignments for service principal sp-1: offline''])
               @ [Call (Oauth2PermissionGrantsGet (Some ''sp-1'')),
                  Log WARNING
                    ''Error fetching oauth2PermissionGrants for service principal sp-1: offline'']))
   \<and> (\<exists>tr2. get_application_by_id (resolved broken_grants_client) ''o-1'' =
         Some (Inr (Some (format_application app_one
                     @ [(''appRoleAssignments'', JList []),
                        (''oauth2PermissionGrants'',
                         JList [JObj (format_oauth2_permission_grant grant_one)])])),
               [Call (ApplicationsByIdGet ''o-1''),
                Call (ServicePrincipalByAppId (Some ''c-1''))]
               @ [Call (AppRoleAssignmentsGet (Some ''sp-1''))]
               @ (tr2 @ [Log WARNING
                   ''Error fetching oauth2PermissionGrants for service principal sp-1: offline''])))"
proof -
  let ?sp = "\<lparr>spn_id = Some ''sp-1''\<rparr>"
  have h1: "get_client (resolved writing_client) = Inr writing_client"
    by (simp add: resolved_def)
  have h2: "get_client (resolved broken_grants_client) = Inr broken_grants_client"
    by (simp add: resolved_def)
  have g1: "applications_by_id_get writing_client ''o-1'' = Inr (Some app_one)"
    by (simp add: writing_client_def)
  have g2: "applications_by_id_get broken_grants_client ''o-1'' = Inr (Some app_one)"
    by (simp add: broken_grants_client_def writing_client_def)
  have r1: "get_service_principal_by_app_id (resolved writing_client) (a_app_id app_one)
      = Inr (Some ?sp)"
    by (simp add: resolved_def)
  have r2: "get_service_principal_by_app_id (resolved broken_grants_client) (a_app_id app_one)
      = Inr (Some ?sp)"
    by (simp add: resolved_def)
  have f1: "fetch_raises (app_role_assignments_get writing_client (Some ''sp-1''))
     (app_role_assignments_with_url_get writing_client (Some ''sp-1'')) [] offline"
    by (simp add: fetch_raises_def writing_client_def offline_client_def)
  have f2: "fetch_raises (oauth2_permission_grants_get broken_grants_client (Some ''sp-1''))
       (oauth2_permission_grants_with_url_get broken_grants_client (Some ''sp-1''))
       [grants_page] offline"
    by (simp add: fetch_raises_def broken_grants_client_def writing_client_def
        offline_client_def grants_page_def next_link_def)
  have e1: "entries ([] :: app_role_assignment collection_response list) = []"
    by (simp add: entries_def)
  have e2: "entries [grants_page] = [grant_one]"
    by (simp add: entries_def grants_page_def or_nil_def)
  have m: "str_exn offline = ''offline''" "a_app_id app_one = Some ''c-1''"
    by (simp_all add: offline_def app_one_def)
  from sub_collection_failure_isolated [OF h1 g1 r1, of "[]" offline "[]"
      "[Call (Oauth2PermissionGrantsGet (Some ''sp-1'')),
        Log WARNING
          ''Error fetching oauth2PermissionGrants for service principal sp-1: offline'']"]
    f1 writing_client_fetch_grants e1 m
  have 1: "\<exists>tr1. get_application_by_id (resolved writing_client) ''o-1'' =
         Some (Inr (Some (format_application app_one
                     @ [(''appRoleAssignments'', JList []),
                        (''oauth2PermissionGrants'', JList [])])),
               [Call (ApplicationsByIdGet ''o-1''),
                Call (ServicePrincipalByAppId (Some ''c-1''))]
               @ (tr1 @ [Log WARNING
                   ''Error fetching appRoleAssignments for service principal sp-1: offline''])
               @ [Call (Oauth2PermissionGrantsGet (Some ''sp-1'')),
                  Log WARNING
                    ''Error fetching oauth2PermissionGrants for service principal sp-1: offline''])"
    by (simp add: str_opt_def)
  from sub_collection_failure_isolated [OF h2 g2 r2, of _ _ _ _ "[]"
      "[Call (AppRoleAssignmentsGet (Some ''sp-1''))]" "[grants_page]" offline]
    f2 broken_grants_fetch_roles e2 m
  have 2: "\<exists>tr2. get_application_by_id (resolved broken_grants_client) ''o-1'' =
         Some (Inr (Some (format_application app_one
                     @ [(''appRoleAssignments'', JList []),
                        (''oauth2PermissionGrants'',
                         JList [JObj (format_oauth2_permission_grant grant_one)])])),
               [Call (ApplicationsByIdGet ''o-1''),
                Call (ServicePrincipalByAppId (Some ''c-1''))]
               @ [Call (AppRoleAssignmentsGet (Some ''sp-1''))]
               @ (tr2 @ [Log WARNING
                   ''Error fetching oauth2PermissionGrants for service principal sp-1: offline'']))"
    by (simp add: str_opt_def)
  from f1 f2 1 2 show ?thesis by blast
qed

subsection \<open>Keys and values of the returned records\<close>



























text \<open>
  A status whose texts the remote object left unset is passed on as it is: the two values
  are \<open>None\<close>, while the error code next to them gets its default.
\<close>

lemma format_status_unset_texts:
  "format_status (Some \<lparr>st_error_code = Some 0, st_failure_reason = None,
                       st_additional_details = None\<rparr>)
   = [(''errorCode'', JInt 0), (''failureReason'', JNull), (''additionalDetails'', JNull)]"
  by (simp add: format_status_def json_of_optional_str_def)








subsection \<open>The time window\<close>
































end
